theory Spec2Isabelle
  imports Main "HOL-Library.AList"
begin

section \<open>The image processor's command-line loop (image-processor/main.py)\<close>

text \<open>
  The program downloads an image, hands it to a vision-language model and writes the
  generated description to a file. Everything it does goes through the console, the
  network, the file system, the clock and the model. The embedding makes these explicit:
  \<^item> the part of the outside world the program changes is a record \<open>world\<close> (the file
    system, the console output, the network requests made, the processes started);
  \<^item> what the outside world answers is a record \<open>lib\<close> of outcomes, one field per
    library call of the source; a call that can raise returns \<open>exn + 'a\<close>;
  \<^item> the two exception classes the handlers of the source tell apart are the two
    constructors of \<open>exn\<close>.
\<close>

subsection \<open>Exceptions\<close>

text \<open>
  The source has handlers for \<open>KeyboardInterrupt\<close> and for \<open>Exception\<close>; the
  argument of \<open>Exception\<close> is the text that \<open>{e}\<close> prints.
\<close>

datatype exn = KeyboardInterrupt | Exception string

subsection \<open>Strings\<close>

definition nl :: string where
  "nl = [CHR 0x0A]"

definition bs :: string where
  "bs = [CHR 0x5C]"

text \<open>
  \<open>str.strip()\<close> removes the characters for which \<open>str.isspace\<close> holds; among
  the characters up to 255 these are 9 to 13, 28 to 32, 133 (next line) and 160
  (no-break space).
\<close>

definition isspace :: "char \<Rightarrow> bool" where
  "isspace c = (of_char c \<in> {9, 10, 11, 12, 13, 28, 29, 30, 31, 32, 133, 160 :: nat})"

definition strip :: "string \<Rightarrow> string" where
  "strip s = rev (dropWhile isspace (rev (dropWhile isspace s)))"

text \<open>\<open>str.lower()\<close> on the letters \<open>A\<close> to \<open>Z\<close>; every other character is kept.\<close>

definition lower_char :: "char \<Rightarrow> char" where
  "lower_char c =
     (if 65 \<le> (of_char c :: nat) \<and> (of_char c :: nat) \<le> 90
      then char_of (of_char c + (32 :: nat)) else c)"

definition lower :: "string \<Rightarrow> string" where
  "lower s = map lower_char s"

subsection \<open>Decimal numbers and the clock\<close>

definition digit :: "nat \<Rightarrow> char" where
  "digit d = char_of (48 + d)"

fun decimal :: "nat \<Rightarrow> string" where
  "decimal n = (if n < 10 then [digit n] else decimal (n div 10) @ [digit (n mod 10)])"

declare decimal.simps [simp del]

text \<open>A number printed in at least \<open>w\<close> digits, filled with zeros (\<open>%02d\<close>, \<open>%Y\<close>).\<close>

definition zero_pad :: "nat \<Rightarrow> nat \<Rightarrow> string" where
  "zero_pad w n = replicate (w - length (decimal n)) (CHR ''0'') @ decimal n"

record datetime =
  year :: nat
  month :: nat
  day :: nat
  hour :: nat
  minute :: nat
  second :: nat
  microsecond :: nat

text \<open>\<open>strftime("%Y%m%d_%H%M%S")\<close>\<close>

definition strftime_stamp :: "datetime \<Rightarrow> string" where
  "strftime_stamp t =
     zero_pad 4 (year t) @ zero_pad 2 (month t) @ zero_pad 2 (day t) @ ''_'' @
     zero_pad 2 (hour t) @ zero_pad 2 (minute t) @ zero_pad 2 (second t)"

text \<open>\<open>datetime.isoformat()\<close>: the fraction is left out when it is zero.\<close>

definition isoformat :: "datetime \<Rightarrow> string" where
  "isoformat t =
     zero_pad 4 (year t) @ ''-'' @ zero_pad 2 (month t) @ ''-'' @ zero_pad 2 (day t) @ ''T'' @
     zero_pad 2 (hour t) @ '':'' @ zero_pad 2 (minute t) @ '':'' @ zero_pad 2 (second t) @
     (if microsecond t = 0 then [] else ''.'' @ zero_pad 6 (microsecond t))"

subsection \<open>Paths and the file system\<close>

text \<open>
  Every path of the source is \<open>os.path.join(directory, name)\<close>; a path is kept as
  that pair, which leaves the separator of the platform open.
\<close>

type_synonym path = "string \<times> string"

definition os_path_join :: "string \<Rightarrow> string \<Rightarrow> path" where
  "os_path_join d f = (d, f)"

definition os_path_basename :: "path \<Rightarrow> string" where
  "os_path_basename p = snd p"

definition CACHE_DIR :: string where
  "CACHE_DIR = ''./cache''"

definition OUTPUT_DIR :: string where
  "OUTPUT_DIR = ''./output''"

record picture =
  mode :: string
  pixels :: "nat list"

text \<open>
  What a path holds: a picture written by \<open>image.save\<close>, a text written through a text
  stream, or a directory.
\<close>

datatype node = Saved picture | Document string | Directory

record world =
  fs :: "(path \<times> node) list"
  printed :: "string list"
  fetched :: "string list"
  spawned :: "string list list"

definition print :: "string \<Rightarrow> world \<Rightarrow> world" where
  "print s w = w\<lparr>printed := printed w @ [s]\<rparr>"

definition os_path_exists :: "path \<Rightarrow> world \<Rightarrow> bool" where
  "os_path_exists p w = (map_of (fs w) p \<noteq> None)"

definition os_path_isfile :: "path \<Rightarrow> world \<Rightarrow> bool" where
  "os_path_isfile p w =
     (case map_of (fs w) p of None \<Rightarrow> False | Some Directory \<Rightarrow> False | Some _ \<Rightarrow> True)"

definition os_listdir :: "string \<Rightarrow> world \<Rightarrow> string list" where
  "os_listdir d w = remdups (map snd (filter (\<lambda>p. fst p = d) (map fst (fs w))))"

text \<open>The files (not the directories) that a directory holds.\<close>

definition files_in :: "string \<Rightarrow> world \<Rightarrow> string list" where
  "files_in d w = filter (\<lambda>f. os_path_isfile (os_path_join d f) w) (os_listdir d w)"

subsection \<open>The startup check\<close>

text \<open>
  What the process finds when it starts: whether CUDA is there, the interpreter and the
  directory of the script, the separator of \<open>os.path.join\<close>, the command line, whether
  the interpreter of the virtual environment exists, and the exception (if any) that
  starting the child process, creating a directory and loading the model raise.
\<close>

record boot =
  cuda_is_available :: bool
  sys_executable :: string
  script_dir :: string
  boot_sep :: string
  sys_argv :: "string list"
  venv_exists :: bool
  subprocess_run :: "string list \<Rightarrow> exn option"
  makedirs :: "string \<Rightarrow> exn option"
  from_pretrained :: "exn option"

text \<open>
  How a piece of the program ends: it goes on (\<open>Proceed\<close>), it calls \<open>sys.exit\<close>
  with a status, or an exception leaves it uncaught.
\<close>

datatype 'a ending = Proceed 'a | Exit nat | Uncaught exn

definition venv_python :: "boot \<Rightarrow> string" where
  "venv_python b =
     script_dir b @ boot_sep b @ ''.venv'' @ boot_sep b @ ''Scripts'' @ boot_sep b @ ''python.exe''"

definition check_cuda_and_restart :: "boot \<Rightarrow> world \<Rightarrow> unit ending \<times> world" where
  "check_cuda_and_restart b w =
     (if \<not> cuda_is_available b then
        let w1 = print ''ERROR: CUDA is not available in the current Python environment.'' w;
            w2 = print (''Current Python: '' @ sys_executable b) w1
        in if venv_exists b then
             let w3 = print (nl @ ''Restarting with CUDA-enabled Python from: '' @ venv_python b) w2;
                 w4 = print (replicate 60 (CHR ''-'')) w3;
                 w5 = w4\<lparr>spawned := spawned w4 @ [venv_python b # sys_argv b]\<rparr>
             in (case subprocess_run b (venv_python b # sys_argv b) of
                   Some e \<Rightarrow> (Uncaught e, w5)
                 | None \<Rightarrow> (Exit 0, w5))
           else
             let w3 = print (nl @ ''ERROR: Virtual environment not found at: '' @ venv_python b) w2;
                 w4 = print (nl @ ''Please run:'') w3;
                 w5 = print ''  cd image-processor'' w4;
                 w6 = print (''  .'' @ bs @ ''.venv'' @ bs @ ''Scripts'' @ bs @ ''Activate.ps1'') w5;
                 w7 = print ''  python main.py'' w6
             in (Exit 1, w7)
      else (Proceed (), w))"


subsection \<open>Directories and the model\<close>

text \<open>\<open>os.makedirs(d, exist_ok=True)\<close> for both directories.\<close>

definition setup_directories :: "boot \<Rightarrow> world \<Rightarrow> unit ending \<times> world" where
  "setup_directories b w =
     (case makedirs b CACHE_DIR of
        Some e \<Rightarrow> (Uncaught e, w)
      | None \<Rightarrow>
          (case makedirs b OUTPUT_DIR of
             Some e \<Rightarrow> (Uncaught e, w)
           | None \<Rightarrow> (Proceed (), w)))"

definition MODEL_ID :: string where
  "MODEL_ID = ''Qwen/Qwen2.5-VL-7B-Instruct''"

definition HF_CACHE_DIR :: string where
  "HF_CACHE_DIR = ''C:/HuggingFace''"

definition load_model :: "boot \<Rightarrow> world \<Rightarrow> unit ending \<times> world" where
  "load_model b w =
     (let w1 = print (''Loading model: '' @ MODEL_ID @ ''...'') w;
          w2 = print (''Using cache directory: '' @ HF_CACHE_DIR) w1;
          w3 = print
            ''This may take a moment depending on your internet connection and disk speed.'' w2
      in case from_pretrained b of
           None \<Rightarrow> (Proceed (), print ''Model Loaded!'' w3)
         | Some (Exception e) \<Rightarrow>
             (Exit 1,
              print
                ''Ensure you have installed the requirements: pip install -r requirements.txt''
                (print (''Error loading model: '' @ e) w3))
         | Some KeyboardInterrupt \<Rightarrow> (Uncaught KeyboardInterrupt, w3))"

subsection \<open>What the outside world answers during one turn of the loop\<close>

text \<open>
  The platform: it fixes the separator of \<open>os.path.join\<close> and \<open>os.linesep\<close>, the
  line separator that a text stream writes for a line feed.
\<close>

datatype platform = POSIX | Windows

record response =
  status_code :: nat
  reason :: string
  url_of :: string
  content :: string

datatype part = TextPart string | ImagePart path

type_synonym message = "string \<times> part list"

text \<open>
  One field per library call of the loop. A call that the source makes once per turn
  with no argument of its own is an outcome; the others are functions of their arguments.
  \<^item> \<open>input_line\<close>: \<open>input(...)\<close>, the line typed or the exception it raises
    (\<open>EOFError\<close>, \<open>KeyboardInterrupt\<close>);
  \<^item> \<open>requests_get\<close>: \<open>requests.get(url, timeout=10)\<close>;
  \<^item> \<open>now_download\<close>, \<open>now_filename\<close>, \<open>now_date\<close>: the three calls of
    \<open>datetime.now()\<close>;
  \<^item> \<open>image_open\<close>: \<open>Image.open(BytesIO(content))\<close>;
  \<^item> \<open>image_convert\<close>: the pixel data that \<open>image.convert(mode)\<close> computes;
  \<^item> \<open>image_save\<close>: the exception (if any) of \<open>image.save(filepath)\<close>;
  \<^item> \<open>SYSTEM_PROMPT\<close>: the constant of the source, a fixed text that no property
    here reads;
  \<^item> \<open>processor_encode\<close>: the chat template, the vision preprocessing, the processor
    call and the move to the device, giving the row of input tokens of the one text;
  \<^item> \<open>model_generate\<close>: \<open>model.generate(**inputs, max_new_tokens=n)\<close>;
  \<^item> \<open>all_special_ids\<close>, \<open>convert_tokens_to_string\<close>: the tokenizer;
  \<^item> \<open>duration_text\<close>: the text of \<open>{duration:.2f}\<close>;
  \<^item> \<open>open_w\<close>: the exception (if any) of \<open>open(filepath, "w", encoding="utf-8")\<close>;
  \<^item> \<open>os_remove_fault\<close>, \<open>os_listdir_fault\<close>: the exception (if any) that the
    operating system raises for the call;
  \<^item> \<open>os_name\<close>: the platform on which the program runs.
\<close>

record lib =
  input_line :: "exn + string"
  requests_get :: "string \<Rightarrow> exn + response"
  now_download :: datetime
  image_open :: "string \<Rightarrow> exn + picture"
  image_convert :: "picture \<Rightarrow> string \<Rightarrow> exn + nat list"
  image_save :: "picture \<Rightarrow> path \<Rightarrow> exn option"
  SYSTEM_PROMPT :: string
  processor_encode :: "message list \<Rightarrow> exn + nat list"
  model_generate :: "nat list list \<Rightarrow> nat \<Rightarrow> exn + nat list list"
  all_special_ids :: "nat list"
  convert_tokens_to_string :: "nat list \<Rightarrow> string"
  duration_text :: string
  now_filename :: datetime
  now_date :: datetime
  open_w :: "path \<Rightarrow> exn option"
  os_remove_fault :: "path \<Rightarrow> exn option"
  os_listdir_fault :: "string \<Rightarrow> exn option"
  os_name :: platform

definition os_sep :: "lib \<Rightarrow> string" where
  "os_sep l = (case os_name l of POSIX \<Rightarrow> ''/'' | Windows \<Rightarrow> bs)"

definition os_linesep :: "lib \<Rightarrow> string" where
  "os_linesep l = (case os_name l of POSIX \<Rightarrow> nl | Windows \<Rightarrow> CHR 0x0D # nl)"

definition path_text :: "lib \<Rightarrow> path \<Rightarrow> string" where
  "path_text l p = fst p @ os_sep l @ snd p"

subsection \<open>The fetcher\<close>

text \<open>
  \<open>Response.raise_for_status()\<close> of the requests library raises \<open>HTTPError\<close> for a
  status from 400 to 599 and returns for every other status.
\<close>

definition raise_for_status :: "response \<Rightarrow> exn + unit" where
  "raise_for_status r =
     (if 400 \<le> status_code r \<and> status_code r < 500 then
        Inl (Exception (decimal (status_code r) @ '' Client Error: '' @ reason r @
                        '' for url: '' @ url_of r))
      else if 500 \<le> status_code r \<and> status_code r < 600 then
        Inl (Exception (decimal (status_code r) @ '' Server Error: '' @ reason r @
                        '' for url: '' @ url_of r))
      else Inr ())"

text \<open>\<open>image.convert(m)\<close> returns a new picture of mode \<open>m\<close>.\<close>

definition convert :: "lib \<Rightarrow> picture \<Rightarrow> string \<Rightarrow> exn + picture" where
  "convert l img m =
     (case image_convert l img m of
        Inl e \<Rightarrow> Inl e
      | Inr px \<Rightarrow> Inr \<lparr>mode = m, pixels = px\<rparr>)"

text \<open>
  \<open>image.save(filepath)\<close>: the path holds the picture afterwards, whatever it held
  before. An exception of \<open>save\<close> is taken to leave the directory as it was.
\<close>

definition save :: "lib \<Rightarrow> picture \<Rightarrow> path \<Rightarrow> world \<Rightarrow> (exn + unit) \<times> world" where
  "save l img p w =
     (case image_save l img p of
        Some e \<Rightarrow> (Inl e, w)
      | None \<Rightarrow> (Inr (), w\<lparr>fs := AList.update p (Saved img) (fs w)\<rparr>))"

text \<open>The statements under \<open>try\<close> in \<open>download_image\<close>.\<close>

definition download_try ::
  "lib \<Rightarrow> string \<Rightarrow> world \<Rightarrow> (exn + path \<times> picture) \<times> world" where
  "download_try l url w =
     (let w1 = w\<lparr>fetched := fetched w @ [url]\<rparr> in
      case requests_get l url of
        Inl e \<Rightarrow> (Inl e, w1)
      | Inr response \<Rightarrow>
          (case raise_for_status response of
             Inl e \<Rightarrow> (Inl e, w1)
           | Inr _ \<Rightarrow>
               let timestamp = strftime_stamp (now_download l);
                   filename = ''image_'' @ timestamp @ ''.jpg'';
                   filepath = os_path_join CACHE_DIR filename
               in (case image_open l (content response) of
                     Inl e \<Rightarrow> (Inl e, w1)
                   | Inr img \<Rightarrow>
                       (case (if mode img \<noteq> ''RGB'' then convert l img ''RGB'' else Inr img) of
                          Inl e \<Rightarrow> (Inl e, w1)
                        | Inr img' \<Rightarrow>
                            (case save l img' filepath w1 of
                               (Inl e, w2) \<Rightarrow> (Inl e, w2)
                             | (Inr _, w2) \<Rightarrow> (Inr (filepath, img'), w2))))))"

text \<open>
  \<open>download_image\<close> with its handler: the pair of the path and the picture, or
  \<open>(None, None)\<close> after the message. \<open>except Exception\<close> lets a
  \<open>KeyboardInterrupt\<close> through.
\<close>

definition download_image ::
  "lib \<Rightarrow> string \<Rightarrow> world \<Rightarrow> (exn + path option \<times> picture option) \<times> world" where
  "download_image l url w =
     (case download_try l url w of
        (Inr (filepath, img), w') \<Rightarrow> (Inr (Some filepath, Some img), w')
      | (Inl (Exception e), w') \<Rightarrow>
          (Inr (None, None), print (''Error downloading image: '' @ e) w')
      | (Inl KeyboardInterrupt, w') \<Rightarrow> (Inl KeyboardInterrupt, w'))"

subsection \<open>The inference adapter\<close>

definition USER_INSTRUCTION :: string where
  "USER_INSTRUCTION =
     ''Provide a complete, detailed description of this UI. Include all visible elements, '' @
     ''their styling, positioning, and any visual indicators. Structure your response with '' @
     ''headers and organize it by sections.''"

definition messages :: "lib \<Rightarrow> path \<Rightarrow> message list" where
  "messages l image_path =
     [(''system'', [TextPart (SYSTEM_PROMPT l)]),
      (''user'', [ImagePart image_path, TextPart USER_INSTRUCTION])]"

text \<open>
  \<open>processor.batch_decode(seqs, skip_special_tokens=b, ...)\<close> of the transformers
  library: each sequence is turned into text, without the special tokens when \<open>b\<close> is set.
\<close>

definition batch_decode :: "lib \<Rightarrow> nat list list \<Rightarrow> bool \<Rightarrow> string list" where
  "batch_decode l seqs skip_special_tokens =
     map (\<lambda>ids. convert_tokens_to_string l
                  (if skip_special_tokens
                   then filter (\<lambda>i. i \<notin> set (all_special_ids l)) ids else ids))
         seqs"

text \<open>
  \<open>text=[text]\<close> is a batch of one text, so \<open>inputs.input_ids\<close> has one row.
  \<open>out_ids[len(in_ids):]\<close> is \<open>drop\<close>; \<open>output_text[0]\<close> raises \<open>IndexError\<close>
  on an empty list.
\<close>

definition process_image :: "lib \<Rightarrow> path \<Rightarrow> exn + string" where
  "process_image l image_path =
     (case processor_encode l (messages l image_path) of
        Inl e \<Rightarrow> Inl e
      | Inr row \<Rightarrow>
          let input_ids = [row] in
          (case model_generate l input_ids 2048 of
             Inl e \<Rightarrow> Inl e
           | Inr generated_ids \<Rightarrow>
               let generated_ids_trimmed =
                     map (\<lambda>(in_ids, out_ids). drop (length in_ids) out_ids)
                         (zip input_ids generated_ids);
                   output_text = batch_decode l generated_ids_trimmed True
               in (case output_text of
                     [] \<Rightarrow> Inl (Exception ''list index out of range'')
                   | t # _ \<Rightarrow> Inr t)))"

subsection \<open>The output writer\<close>

text \<open>
  \<open>open(filepath, "w", encoding="utf-8")\<close> creates the file or empties the one that
  is there, and gives a text stream with \<open>newline=None\<close>: \<open>f.write(s)\<close> appends
  \<open>s\<close> with each line feed written as \<open>os.linesep\<close>. A document is the sequence of
  characters that the file holds.
\<close>

definition text_mode :: "lib \<Rightarrow> string \<Rightarrow> string" where
  "text_mode l s = concat (map (\<lambda>c. if c = CHR 0x0A then os_linesep l else [c]) s)"

definition open_write :: "path \<Rightarrow> world \<Rightarrow> world" where
  "open_write p w = w\<lparr>fs := AList.update p (Document []) (fs w)\<rparr>"

definition f_write :: "lib \<Rightarrow> path \<Rightarrow> string \<Rightarrow> world \<Rightarrow> world" where
  "f_write l p s w =
     (case map_of (fs w) p of
        Some (Document t) \<Rightarrow>
          w\<lparr>fs := AList.update p (Document (t @ text_mode l s)) (fs w)\<rparr>
      | _ \<Rightarrow> w\<lparr>fs := AList.update p (Document (text_mode l s)) (fs w)\<rparr>)"

definition save_output :: "lib \<Rightarrow> string \<Rightarrow> string \<Rightarrow> world \<Rightarrow> (exn + path) \<times> world" where
  "save_output l content' original_url w =
     (let timestamp = strftime_stamp (now_filename l);
          filename = ''output_'' @ timestamp @ ''.md'';
          filepath = os_path_join OUTPUT_DIR filename
      in case open_w l filepath of
           Some e \<Rightarrow> (Inl e, w)
         | None \<Rightarrow>
             let w1 = open_write filepath w;
                 w2 = f_write l filepath (''<!-- Source: '' @ original_url @ '' -->'' @ nl) w1;
                 w3 = f_write l filepath
                        (''<!-- Date: '' @ isoformat (now_date l) @ '' -->'' @ nl @ nl) w2;
                 w4 = f_write l filepath content' w3
             in (Inr filepath, w4))"

subsection \<open>Cleaning the cache\<close>

text \<open>
  \<open>os.remove(p)\<close> deletes a file; it raises when the operating system refuses, when
  nothing is at the path and when the path is a directory.
\<close>

definition os_remove :: "lib \<Rightarrow> path \<Rightarrow> world \<Rightarrow> (exn + unit) \<times> world" where
  "os_remove l p w =
     (case os_remove_fault l p of
        Some e \<Rightarrow> (Inl e, w)
      | None \<Rightarrow>
          if os_path_isfile p w then (Inr (), w\<lparr>fs := AList.delete p (fs w)\<rparr>)
          else if os_path_exists p w then
            (Inl (Exception (''[Errno 21] Is a directory: '' @ path_text l p)), w)
          else
            (Inl (Exception (''[Errno 2] No such file or directory: '' @ path_text l p)), w))"

text \<open>
  The loop over \<open>cache_files\<close>: \<open>except Exception: pass\<close> goes on to the next file,
  a \<open>KeyboardInterrupt\<close> leaves the loop.
\<close>

fun sweep :: "lib \<Rightarrow> string list \<Rightarrow> world \<Rightarrow> (exn + unit) \<times> world" where
  "sweep l [] w = (Inr (), w)"
| "sweep l (cache_file # rest) w =
     (case os_remove l (os_path_join CACHE_DIR cache_file) w of
        (Inl KeyboardInterrupt, w') \<Rightarrow> (Inl KeyboardInterrupt, w')
      | (Inl (Exception e), w') \<Rightarrow> sweep l rest w'
      | (Inr _, w') \<Rightarrow> sweep l rest w')"

text \<open>A path is a string: it counts as false when it is empty.\<close>

definition truthy :: "path \<Rightarrow> bool" where
  "truthy p = (fst p \<noteq> [] \<or> snd p \<noteq> [])"

text \<open>The statements under the inner \<open>try\<close> of \<open>main\<close>.\<close>

definition cleanup_try :: "lib \<Rightarrow> path \<Rightarrow> world \<Rightarrow> (exn + unit) \<times> world" where
  "cleanup_try l image_path w =
     (case (if truthy image_path \<and> os_path_exists image_path w
            then os_remove l image_path w else (Inr (), w)) of
        (Inl e, w1) \<Rightarrow> (Inl e, w1)
      | (Inr _, w1) \<Rightarrow>
          (case os_listdir_fault l CACHE_DIR of
             Some e \<Rightarrow> (Inl e, w1)
           | None \<Rightarrow>
               let cache_files = files_in CACHE_DIR w1 in
               if cache_files \<noteq> [] then
                 (case sweep l cache_files w1 of
                    (Inl e, w2) \<Rightarrow> (Inl e, w2)
                  | (Inr _, w2) \<Rightarrow>
                      (Inr (),
                       print (''Cache cleared: '' @ decimal (length cache_files + 1) @
                              '' file(s) removed'') w2))
               else
                 (Inr (), print (''Cache cleared: '' @ os_path_basename image_path) w1)))"

definition cleanup :: "lib \<Rightarrow> path \<Rightarrow> world \<Rightarrow> (exn + unit) \<times> world" where
  "cleanup l image_path w =
     (case cleanup_try l image_path w of
        (Inl (Exception e), w') \<Rightarrow>
          (Inr (), print (''Warning: Could not delete cached image: '' @ e) w')
      | r \<Rightarrow> r)"

subsection \<open>The session loop\<close>

datatype control = Break | Continue

definition preview :: "string \<Rightarrow> string" where
  "preview markdown_content =
     (if length markdown_content > 200 then take 200 markdown_content @ ''...''
      else markdown_content)"

definition quit_keywords :: "string list" where
  "quit_keywords = [''q'', ''quit'', ''exit'']"

text \<open>
  The statements under the outer \<open>try\<close> of the loop: how the turn ends (\<open>break\<close>,
  or \<open>continue\<close> and the end of the body alike as \<open>Continue\<close>), or the exception
  that leaves them.
\<close>

definition loop_body :: "lib \<Rightarrow> world \<Rightarrow> (exn + control) \<times> world" where
  "loop_body l w =
     (let w0 = print (nl @ ''Image URL > '') w in
      case input_line l of
        Inl e \<Rightarrow> (Inl e, w0)
      | Inr line \<Rightarrow>
          let user_input = strip line in
          if lower user_input \<in> set quit_keywords then (Inr Break, print ''Exiting...'' w0)
          else if user_input = [] then (Inr Continue, w0)
          else
            let w1 = print ''Downloading image...'' w0 in
            (case download_image l user_input w1 of
               (Inl e, w2) \<Rightarrow> (Inl e, w2)
             | (Inr (None, _), w2) \<Rightarrow> (Inr Continue, w2)
             | (Inr (Some image_path, _), w2) \<Rightarrow>
                 if \<not> truthy image_path then (Inr Continue, w2)
                 else
                   let w3 = print ''Processing image (this may take a few seconds)...'' w2 in
                   (case process_image l image_path of
                      Inl e \<Rightarrow> (Inl e, w3)
                    | Inr markdown_content \<Rightarrow>
                        (case save_output l markdown_content user_input w3 of
                           (Inl e, w4) \<Rightarrow> (Inl e, w4)
                         | (Inr output_path, w4) \<Rightarrow>
                             let w5 = print (nl @ ''Success! ('' @ duration_text l @ ''s)'') w4;
                                 w6 = print (''Saved to: '' @ path_text l output_path) w5;
                                 w7 = print (replicate 30 (CHR ''-'')) w6;
                                 w8 = print (preview markdown_content) w7
                             in (case cleanup l image_path w8 of
                                   (Inl e, w9) \<Rightarrow> (Inl e, w9)
                                 | (Inr _, w9) \<Rightarrow> (Inr Continue, w9))))))"

text \<open>One turn of \<open>while True\<close> with the two handlers of the loop.\<close>

definition iteration :: "lib \<Rightarrow> world \<Rightarrow> control \<times> world" where
  "iteration l w =
     (case loop_body l w of
        (Inr c, w') \<Rightarrow> (c, w')
      | (Inl KeyboardInterrupt, w') \<Rightarrow> (Break, print (nl @ ''Exiting...'') w')
      | (Inl (Exception e), w') \<Rightarrow>
          (Continue, print (''An unexpected error occurred: '' @ e) w'))"

text \<open>
  The loop over the turns that the operator and the outside world have played so far:
  \<open>Break\<close> when the loop has been left, \<open>Continue\<close> when it is at the next prompt.
\<close>

fun session_loop :: "lib list \<Rightarrow> world \<Rightarrow> control \<times> world" where
  "session_loop [] w = (Continue, w)"
| "session_loop (l # ls) w =
     (case iteration l w of
        (Break, w') \<Rightarrow> (Break, w')
      | (Continue, w') \<Rightarrow> session_loop ls w')"

definition main :: "boot \<Rightarrow> lib list \<Rightarrow> world \<Rightarrow> control ending \<times> world" where
  "main b ls w =
     (case check_cuda_and_restart b w of
        (Exit n, w1) \<Rightarrow> (Exit n, w1)
      | (Uncaught e, w1) \<Rightarrow> (Uncaught e, w1)
      | (Proceed _, w1) \<Rightarrow>
          (case setup_directories b w1 of
             (Exit n, w2) \<Rightarrow> (Exit n, w2)
           | (Uncaught e, w2) \<Rightarrow> (Uncaught e, w2)
           | (Proceed _, w2) \<Rightarrow>
               (case load_model b w2 of
                  (Exit n, w3) \<Rightarrow> (Exit n, w3)
                | (Uncaught e, w3) \<Rightarrow> (Uncaught e, w3)
                | (Proceed _, w3) \<Rightarrow>
                    let w4 = print (nl @ ''--- VLM CLI Tool Ready ---'') w3;
                        w5 = print ''Enter an image URL to process, or 'q' to quit.'' w4
                    in (case session_loop ls w5 of (c, w6) \<Rightarrow> (Proceed c, w6)))))"

section \<open>Notions of the specification\<close>

subsection \<open>Lines of a document\<close>

text \<open>
  The first line of a text, without its end, and what follows that line. A line ends
  with a line feed, with a carriage return followed by a line feed, or with a carriage
  return alone.
\<close>

fun cut_line :: "string \<Rightarrow> string \<times> string" where
  "cut_line [] = ([], [])"
| "cut_line (c # cs) =
     (if c = CHR 0x0A then ([], cs)
      else if c = CHR 0x0D then
        ([], case cs of [] \<Rightarrow> [] | d # ds \<Rightarrow> if d = CHR 0x0A then ds else cs)
      else (case cut_line cs of (line, rest) \<Rightarrow> (c # line, rest)))"

subsection \<open>ISO-8601 timestamps\<close>

text \<open>
  A timestamp of the form \<open>YYYY-MM-DDThh:mm:ss\<close> or \<open>YYYY-MM-DDThh:mm:ss.ffffff\<close>
  is read field by field; it is valid when the fields name a date of the calendar and
  a time of the day.
\<close>

definition is_digit :: "char \<Rightarrow> bool" where
  "is_digit c = (48 \<le> (of_char c :: nat) \<and> (of_char c :: nat) \<le> 57)"

definition number :: "string \<Rightarrow> nat option" where
  "number s =
     (if s \<noteq> [] \<and> list_all is_digit s
      then Some (foldl (\<lambda>a c. 10 * a + (of_char c - 48)) 0 s) else None)"

definition leap_year :: "nat \<Rightarrow> bool" where
  "leap_year y = (y mod 4 = 0 \<and> (y mod 100 \<noteq> 0 \<or> y mod 400 = 0))"

definition days_in_month :: "nat \<Rightarrow> nat \<Rightarrow> nat" where
  "days_in_month y m =
     (if m = 2 then (if leap_year y then 29 else 28)
      else if m \<in> {4, 6, 9, 11} then 30 else 31)"

text \<open>The values that a \<open>datetime\<close> object of Python can have.\<close>

definition valid_datetime :: "datetime \<Rightarrow> bool" where
  "valid_datetime t =
     (1 \<le> year t \<and> year t \<le> 9999 \<and> 1 \<le> month t \<and> month t \<le> 12 \<and>
      1 \<le> day t \<and> day t \<le> days_in_month (year t) (month t) \<and>
      hour t < 24 \<and> minute t < 60 \<and> second t < 60 \<and> microsecond t < 1000000)"

definition parse_iso8601 :: "string \<Rightarrow> datetime option" where
  "parse_iso8601 s =
     (if (length s = 19 \<or> (length s = 26 \<and> s ! 19 = CHR ''.'')) \<and>
         s ! 4 = CHR ''-'' \<and> s ! 7 = CHR ''-'' \<and> s ! 10 = CHR ''T'' \<and>
         s ! 13 = CHR '':'' \<and> s ! 16 = CHR '':''
      then
        (case (number (take 4 s), number (take 2 (drop 5 s)), number (take 2 (drop 8 s)),
               number (take 2 (drop 11 s)), number (take 2 (drop 14 s)),
               number (take 2 (drop 17 s)),
               (if length s = 19 then Some 0 else number (drop 20 s))) of
           (Some y, Some mo, Some d, Some h, Some mi, Some sec, Some us) \<Rightarrow>
             Some \<lparr>year = y, month = mo, day = d, hour = h, minute = mi, second = sec,
                   microsecond = us\<rparr>
         | _ \<Rightarrow> None)
      else None)"

definition iso8601_valid :: "string \<Rightarrow> bool" where
  "iso8601_valid s = (case parse_iso8601 s of None \<Rightarrow> False | Some t \<Rightarrow> valid_datetime t)"

section \<open>Sample turns\<close>

text \<open>Concrete answers of the outside world, on which the theorems are run.\<close>

definition t0 :: datetime where
  "t0 = \<lparr>year = 2024, month = 3, day = 5, hour = 14, minute = 7, second = 9,
         microsecond = 123\<rparr>"

definition rgba_png :: picture where
  "rgba_png = \<lparr>mode = ''RGBA'', pixels = [255, 0, 0, 128]\<rparr>"

definition page :: response where
  "page = \<lparr>status_code = 200, reason = ''OK'', url_of = ''https://example.com/shot.png'',
           content = ''PNG''\<rparr>"

definition w0 :: world where
  "w0 = \<lparr>fs = [], printed = [], fetched = [], spawned = []\<rparr>"

text \<open>
  A turn in which every call succeeds: a transparent PNG is fetched, the model echoes
  its three input tokens and adds the tokens \<open>72, 0, 105\<close>, of which \<open>0\<close> is special.
\<close>

definition good_turn :: lib where
  "good_turn =
     \<lparr>input_line = Inr '' https://example.com/shot.png'',
      requests_get = (\<lambda>u. Inr page),
      now_download = t0,
      image_open = (\<lambda>c. Inr rgba_png),
      image_convert = (\<lambda>i m. Inr (take 3 (pixels i))),
      image_save = (\<lambda>i p. None),
      SYSTEM_PROMPT = ''You are an expert image documentation specialist'',
      processor_encode = (\<lambda>m. Inr [1, 2, 3]),
      model_generate = (\<lambda>rows n. Inr (map (\<lambda>r. r @ take n [72, 0, 105]) rows)),
      all_special_ids = [0],
      convert_tokens_to_string =
        (\<lambda>ids. concat (map (\<lambda>i. if i = 72 then ''H'' else if i = 105 then ''i'' else ''?'') ids)),
      duration_text = ''3.14'',
      now_filename = t0,
      now_date = t0,
      open_w = (\<lambda>p. None),
      os_remove_fault = (\<lambda>p. None),
      os_listdir_fault = (\<lambda>d. None),
      os_name = POSIX\<rparr>"

text \<open>The same turn with the answer of one call changed.\<close>

definition unreachable_turn :: lib where
  "unreachable_turn = good_turn\<lparr>requests_get := (\<lambda>u. Inl (Exception ''Connection refused''))\<rparr>"

definition not_found_turn :: lib where
  "not_found_turn =
     good_turn\<lparr>requests_get := (\<lambda>u. Inr (page\<lparr>status_code := 404, reason := ''Not Found''\<rparr>))\<rparr>"

definition html_turn :: lib where
  "html_turn = good_turn\<lparr>image_open := (\<lambda>c. Inl (Exception ''cannot identify image file''))\<rparr>"

definition multiple_choices_turn :: lib where
  "multiple_choices_turn =
     good_turn\<lparr>requests_get :=
       (\<lambda>u. Inr (page\<lparr>status_code := 300, reason := ''Multiple Choices''\<rparr>))\<rparr>"

definition out_of_memory_turn :: lib where
  "out_of_memory_turn =
     good_turn\<lparr>model_generate := (\<lambda>rows n. Inl (Exception ''CUDA out of memory''))\<rparr>"

definition read_only_turn :: lib where
  "read_only_turn = good_turn\<lparr>open_w := (\<lambda>p. Some (Exception ''Permission denied''))\<rparr>"

definition interrupted_turn :: lib where
  "interrupted_turn = good_turn\<lparr>model_generate := (\<lambda>rows n. Inl KeyboardInterrupt)\<rparr>"

text \<open>The turn in which every call succeeds, on Windows.\<close>

definition windows_turn :: lib where
  "windows_turn = good_turn\<lparr>os_name := Windows\<rparr>"

definition quit_turn :: "string \<Rightarrow> lib" where
  "quit_turn line = good_turn\<lparr>input_line := Inr line\<rparr>"

text \<open>An output directory that already holds a document under the name of \<open>t0\<close>.\<close>

definition w_taken :: world where
  "w_taken =
     w0\<lparr>fs := [((OUTPUT_DIR, ''output_20240305_140709.md''), Document ''an earlier description'')]\<rparr>"

definition no_gpu_no_venv :: boot where
  "no_gpu_no_venv =
     \<lparr>cuda_is_available = False, sys_executable = ''C:/Python311/python.exe'',
      script_dir = ''C:/image-processor'', boot_sep = bs, sys_argv = [''main.py''],
      venv_exists = False, subprocess_run = (\<lambda>c. None), makedirs = (\<lambda>d. None),
      from_pretrained = None\<rparr>"

definition no_gpu_venv :: boot where
  "no_gpu_venv = no_gpu_no_venv\<lparr>venv_exists := True\<rparr>"

section \<open>Facts about the embedding\<close>

subsection \<open>Decimal numbers\<close>

lemma of_char_digit: "d < 10 \<Longrightarrow> (of_char (digit d) :: nat) = 48 + d"
  by (simp add: digit_def)

lemma is_digit_digit: "d < 10 \<Longrightarrow> is_digit (digit d)"
  by (simp add: is_digit_def of_char_digit)

lemma decimal_digits: "list_all is_digit (decimal n)"
proof (induction n rule: decimal.induct)
  case (1 n)
  show ?case
  proof (cases "n < 10")
    case True
    then show ?thesis by (subst decimal.simps) (simp add: is_digit_digit)
  next
    case False
    with 1 show ?thesis by (subst decimal.simps) (simp add: is_digit_digit)
  qed
qed

lemma decimal_not_empty: "decimal n \<noteq> []"
  by (subst decimal.simps) simp

lemma decimal_value: "foldl (\<lambda>a c. 10 * a + (of_char c - 48)) 0 (decimal n) = n"
proof (induction n rule: decimal.induct)
  case (1 n)
  show ?case
  proof (cases "n < 10")
    case True
    then show ?thesis by (subst decimal.simps) (simp add: of_char_digit)
  next
    case False
    with 1 show ?thesis by (subst decimal.simps) (simp add: of_char_digit)
  qed
qed

lemma length_decimal: "0 < w \<Longrightarrow> n < 10 ^ w \<Longrightarrow> length (decimal n) \<le> w"
proof (induction n arbitrary: w rule: decimal.induct)
  case (1 n)
  show ?case
  proof (cases "n < 10")
    case True
    with 1 show ?thesis by (subst decimal.simps) simp
  next
    case False
    from False 1(3) have "w \<noteq> 1" by auto
    with 1(2) have "1 < w" by simp
    then obtain v where v: "w = Suc v" "0 < v" by (cases w) auto
    with 1(3) have "n div 10 < 10 ^ v" by (simp add: less_mult_imp_div_less mult.commute)
    with 1(1) [OF False v(2)] v False show ?thesis by (subst decimal.simps) simp
  qed
qed

lemma foldl_zeros:
  "foldl (\<lambda>a c. 10 * a + (of_char c - 48)) (0::nat) (replicate k (CHR ''0'')) = 0"
  by (induction k) simp_all

lemma zeros_digits: "list_all is_digit (replicate k (CHR ''0''))"
  by (induction k) (simp_all add: is_digit_def)

lemma zero_pad_length: "0 < w \<Longrightarrow> n < 10 ^ w \<Longrightarrow> length (zero_pad w n) = w"
  using length_decimal [of w n] by (simp add: zero_pad_def)

lemma zero_pad_digits: "list_all is_digit (zero_pad w n)"
  by (simp add: zero_pad_def decimal_digits zeros_digits)

lemma zero_pad_number: "number (zero_pad w n) = Some n"
proof -
  have "zero_pad w n \<noteq> []" by (simp add: zero_pad_def decimal_not_empty)
  moreover have "foldl (\<lambda>a c. 10 * a + (of_char c - 48)) 0 (zero_pad w n) = n"
    by (simp add: zero_pad_def foldl_zeros decimal_value)
  ultimately show ?thesis by (simp add: number_def zero_pad_digits)
qed

lemma zero_pad_no_line_end: "CHR 0x0A \<notin> set (zero_pad w n) \<and> CHR 0x0D \<notin> set (zero_pad w n)"
proof -
  have "c \<notin> set (zero_pad w n)" if "\<not> is_digit c" for c
    using zero_pad_digits [of w n] that by (auto simp: list_all_iff)
  then show ?thesis by (simp add: is_digit_def)
qed

subsection \<open>Timestamps are read back\<close>

lemma isoformat_no_line_end: "CHR 0x0A \<notin> set (isoformat t) \<and> CHR 0x0D \<notin> set (isoformat t)"
  by (simp add: isoformat_def zero_pad_no_line_end)

lemma length4: "length a = 4 \<Longrightarrow> \<exists>a1 a2 a3 a4. a = [a1, a2, a3, a4]"
  by (auto simp: length_Suc_conv eval_nat_numeral)

lemma length2: "length a = 2 \<Longrightarrow> \<exists>a1 a2. a = [a1, a2]"
  by (auto simp: length_Suc_conv eval_nat_numeral)

lemma length6: "length a = 6 \<Longrightarrow> \<exists>a1 a2 a3 a4 a5 a6. a = [a1, a2, a3, a4, a5, a6]"
  by (auto simp: length_Suc_conv eval_nat_numeral)

lemma parse_fields_short:
  assumes "length a = 4" "length b = 2" "length c = 2" "length d = 2" "length e = 2"
    "length f = 2"
    and "number a = Some y" "number b = Some mo" "number c = Some dd" "number d = Some h"
    "number e = Some mi" "number f = Some sec"
  shows "parse_iso8601 (a @ ''-'' @ b @ ''-'' @ c @ ''T'' @ d @ '':'' @ e @ '':'' @ f) =
           Some \<lparr>year = y, month = mo, day = dd, hour = h, minute = mi, second = sec,
                 microsecond = 0\<rparr>"
proof -
  from assms(1) obtain a1 a2 a3 a4 where a: "a = [a1, a2, a3, a4]" using length4 by blast
  from assms(2) obtain b1 b2 where b: "b = [b1, b2]" using length2 by blast
  from assms(3) obtain c1 c2 where c: "c = [c1, c2]" using length2 by blast
  from assms(4) obtain d1 d2 where d: "d = [d1, d2]" using length2 by blast
  from assms(5) obtain e1 e2 where e: "e = [e1, e2]" using length2 by blast
  from assms(6) obtain f1 f2 where f: "f = [f1, f2]" using length2 by blast
  show ?thesis
    using assms(7-12) unfolding a b c d e f
    by (simp add: parse_iso8601_def)
qed

lemma parse_fields_long:
  assumes "length a = 4" "length b = 2" "length c = 2" "length d = 2" "length e = 2"
    "length f = 2" "length g = 6"
    and "number a = Some y" "number b = Some mo" "number c = Some dd" "number d = Some h"
    "number e = Some mi" "number f = Some sec" "number g = Some us"
  shows "parse_iso8601
           (a @ ''-'' @ b @ ''-'' @ c @ ''T'' @ d @ '':'' @ e @ '':'' @ f @ ''.'' @ g) =
           Some \<lparr>year = y, month = mo, day = dd, hour = h, minute = mi, second = sec,
                 microsecond = us\<rparr>"
proof -
  from assms(1) obtain a1 a2 a3 a4 where a: "a = [a1, a2, a3, a4]" using length4 by blast
  from assms(2) obtain b1 b2 where b: "b = [b1, b2]" using length2 by blast
  from assms(3) obtain c1 c2 where c: "c = [c1, c2]" using length2 by blast
  from assms(4) obtain d1 d2 where d: "d = [d1, d2]" using length2 by blast
  from assms(5) obtain e1 e2 where e: "e = [e1, e2]" using length2 by blast
  from assms(6) obtain f1 f2 where f: "f = [f1, f2]" using length2 by blast
  from assms(7) obtain g1 g2 g3 g4 g5 g6 where g: "g = [g1, g2, g3, g4, g5, g6]"
    using length6 by blast
  show ?thesis
    using assms(8-14) unfolding a b c d e f g
    by (simp add: parse_iso8601_def)
qed

lemma parse_isoformat:
  assumes "valid_datetime t"
  shows "parse_iso8601 (isoformat t) =
     Some \<lparr>year = year t, month = month t, day = day t, hour = hour t, minute = minute t,
           second = second t, microsecond = microsecond t\<rparr>"
proof -
  from assms have r: "year t < 10 ^ 4" "month t < 10 ^ 2" "day t < 10 ^ 2" "hour t < 10 ^ 2"
    "minute t < 10 ^ 2" "second t < 10 ^ 2" "microsecond t < 10 ^ 6"
    by (auto simp: valid_datetime_def days_in_month_def split: if_splits)
  note len = zero_pad_length [OF _ r(1)] zero_pad_length [OF _ r(2)] zero_pad_length [OF _ r(3)]
    zero_pad_length [OF _ r(4)] zero_pad_length [OF _ r(5)] zero_pad_length [OF _ r(6)]
    zero_pad_length [OF _ r(7)]
  show ?thesis
  proof (cases "microsecond t = 0")
    case True
    then show ?thesis
      unfolding isoformat_def
      using parse_fields_short [of "zero_pad 4 (year t)" "zero_pad 2 (month t)"
          "zero_pad 2 (day t)" "zero_pad 2 (hour t)" "zero_pad 2 (minute t)"
          "zero_pad 2 (second t)"] len
      by (simp add: zero_pad_number)
  next
    case False
    then show ?thesis
      unfolding isoformat_def
      using parse_fields_long [of "zero_pad 4 (year t)" "zero_pad 2 (month t)"
          "zero_pad 2 (day t)" "zero_pad 2 (hour t)" "zero_pad 2 (minute t)"
          "zero_pad 2 (second t)" "zero_pad 6 (microsecond t)"] len
      by (simp add: zero_pad_number)
  qed
qed

lemma isoformat_valid: "valid_datetime t \<Longrightarrow> iso8601_valid (isoformat t)"
  by (simp add: iso8601_valid_def parse_isoformat valid_datetime_def)

subsection \<open>Text streams and lines\<close>

lemma text_mode_append: "text_mode l (a @ b) = text_mode l a @ text_mode l b"
  by (simp add: text_mode_def)

lemma text_mode_nl: "text_mode l nl = os_linesep l"
  by (simp add: text_mode_def nl_def)

lemma text_mode_plain: "CHR 0x0A \<notin> set s \<Longrightarrow> text_mode l s = s"
  by (induction s) (auto simp: text_mode_def)

lemma text_mode_posix: "os_name l = POSIX \<Longrightarrow> text_mode l s = s"
  by (induction s) (auto simp: text_mode_def os_linesep_def nl_def)

lemma cut_line_linesep: "cut_line (os_linesep l @ r) = ([], r)"
  by (cases "os_name l") (simp_all add: os_linesep_def nl_def)

lemma cut_line_append:
  "CHR 0x0A \<notin> set a \<Longrightarrow> CHR 0x0D \<notin> set a \<Longrightarrow>
   cut_line (a @ os_linesep l @ r) = (a, r)"
  by (induction a) (auto simp: cut_line_linesep)

subsection \<open>The fetcher, step by step\<close>

lemma raise_for_status_error:
  "400 \<le> status_code r \<Longrightarrow> status_code r < 600 \<Longrightarrow>
   \<exists>e. raise_for_status r = Inl (Exception e)"
  by (simp add: raise_for_status_def)

lemma raise_for_status_ok:
  "\<not> (400 \<le> status_code r \<and> status_code r < 600) \<Longrightarrow> raise_for_status r = Inr ()"
  by (auto simp add: raise_for_status_def)

lemma download_try_get_fault:
  "requests_get l url = Inl e \<Longrightarrow>
   download_try l url w = (Inl e, w\<lparr>fetched := fetched w @ [url]\<rparr>)"
  by (simp add: download_try_def)

lemma download_try_status_fault:
  "requests_get l url = Inr r \<Longrightarrow> raise_for_status r = Inl e \<Longrightarrow>
   download_try l url w = (Inl e, w\<lparr>fetched := fetched w @ [url]\<rparr>)"
  by (simp add: download_try_def)

lemma download_try_open_fault:
  "requests_get l url = Inr r \<Longrightarrow> raise_for_status r = Inr () \<Longrightarrow>
   image_open l (content r) = Inl e \<Longrightarrow>
   download_try l url w = (Inl e, w\<lparr>fetched := fetched w @ [url]\<rparr>)"
  by (simp add: download_try_def)

lemma download_image_caught:
  "download_try l url w = (Inl (Exception e), w') \<Longrightarrow>
   download_image l url w = (Inr (None, None), print (''Error downloading image: '' @ e) w')"
  by (simp add: download_image_def)

lemma download_try_success:
  "download_try l url w = (Inr (p, i), w') \<Longrightarrow>
   p = (CACHE_DIR, ''image_'' @ strftime_stamp (now_download l) @ ''.jpg'') \<and>
   mode i = ''RGB'' \<and>
   w' = w\<lparr>fetched := fetched w @ [url], fs := AList.update p (Saved i) (fs w)\<rparr>"
  by (auto simp: download_try_def Let_def os_path_join_def save_def convert_def
      split: sum.splits if_splits option.splits)

lemma download_image_success:
  "download_image l url w = (Inr (Some p, i), w') \<Longrightarrow>
   \<exists>j. i = Some j \<and> download_try l url w = (Inr (p, j), w')"
  by (auto simp: download_image_def split: prod.splits sum.splits exn.splits)

subsection \<open>The writer\<close>

lemma save_output_opened:
  assumes "open_w l (OUTPUT_DIR, ''output_'' @ strftime_stamp (now_filename l) @ ''.md'') = None"
  shows "fst (save_output l c u w) =
           Inr (OUTPUT_DIR, ''output_'' @ strftime_stamp (now_filename l) @ ''.md'')"
    and "map_of (fs (snd (save_output l c u w))) =
           (map_of (fs w))
             ((OUTPUT_DIR, ''output_'' @ strftime_stamp (now_filename l) @ ''.md'') \<mapsto>
              Document (text_mode l
                (''<!-- Source: '' @ u @ '' -->'' @ nl @
                 ''<!-- Date: '' @ isoformat (now_date l) @ '' -->'' @ nl @ nl @ c)))"
    and "printed (snd (save_output l c u w)) = printed w"
    and "fetched (snd (save_output l c u w)) = fetched w"
proof -
  let ?p = "(OUTPUT_DIR, ''output_'' @ strftime_stamp (now_filename l) @ ''.md'')"
  let ?a = "''<!-- Source: '' @ u @ '' -->'' @ nl"
  let ?b = "''<!-- Date: '' @ isoformat (now_date l) @ '' -->'' @ nl @ nl"
  have t: "text_mode l
       (''<!-- Source: '' @ u @ '' -->'' @ nl @
        ''<!-- Date: '' @ isoformat (now_date l) @ '' -->'' @ nl @ nl @ c) =
     text_mode l ?a @ text_mode l ?b @ text_mode l c"
    by (simp only: text_mode_append append_assoc)
  have "map_of (fs (snd (save_output l c u w))) =
     (map_of (fs w))(?p \<mapsto> Document (text_mode l ?a @ text_mode l ?b @ text_mode l c))"
    using assms
    by (simp add: save_output_def Let_def os_path_join_def open_write_def f_write_def
        update_conv')
  then show "map_of (fs (snd (save_output l c u w))) =
           (map_of (fs w))
             ((OUTPUT_DIR, ''output_'' @ strftime_stamp (now_filename l) @ ''.md'') \<mapsto>
              Document (text_mode l
                (''<!-- Source: '' @ u @ '' -->'' @ nl @
                 ''<!-- Date: '' @ isoformat (now_date l) @ '' -->'' @ nl @ nl @ c)))"
    by (simp only: t)
  show "fst (save_output l c u w) = Inr ?p"
    and "printed (snd (save_output l c u w)) = printed w"
    and "fetched (snd (save_output l c u w)) = fetched w"
    using assms
    by (simp_all add: save_output_def Let_def os_path_join_def open_write_def f_write_def
        update_conv')
qed

subsection \<open>The sample turns, evaluated\<close>

lemma good_turn_download:
  "download_image good_turn ''https://example.com/shot.png'' w0 =
     (Inr (Some (CACHE_DIR, ''image_20240305_140709.jpg''),
           Some \<lparr>mode = ''RGB'', pixels = [255, 0, 0]\<rparr>),
      w0\<lparr>fetched := [''https://example.com/shot.png''],
         fs := [((CACHE_DIR, ''image_20240305_140709.jpg''),
                 Saved \<lparr>mode = ''RGB'', pixels = [255, 0, 0]\<rparr>)]\<rparr>)"
  by code_simp

lemma unreachable_turn_download:
  "download_image unreachable_turn ''https://example.com/shot.png'' w0 =
     (Inr (None, None),
      w0\<lparr>fetched := [''https://example.com/shot.png''],
         printed := [''Error downloading image: Connection refused'']\<rparr>)"
  by code_simp

lemma stamp_t0: "strftime_stamp t0 = ''20240305_140709''"
  by code_simp

lemma isoformat_t0: "isoformat t0 = ''2024-03-05T14:07:09.000123''"
  by code_simp

lemma valid_t0: "valid_datetime t0"
  by (simp add: valid_datetime_def t0_def days_in_month_def leap_year_def)

subsection \<open>One turn of the loop, stage by stage\<close>

lemma download_image_truthy:
  "download_image l url w = (Inr (Some p, i), w') \<Longrightarrow> truthy p"
  by (auto simp: download_image_def download_try_def Let_def truthy_def os_path_join_def
      CACHE_DIR_def split: prod.splits sum.splits exn.splits if_splits)

lemma iteration_fetch_fault:
  assumes "input_line l = Inr line" "lower (strip line) \<notin> set quit_keywords" "strip line \<noteq> []"
    and "download_try l (strip line)
           (print ''Downloading image...'' (print (nl @ ''Image URL > '') w)) =
         (Inl (Exception e), wa)"
  shows "iteration l w = (Continue, print (''Error downloading image: '' @ e) wa)"
  using assms by (simp add: iteration_def loop_body_def Let_def download_image_def)

lemma iteration_inference_fault:
  assumes "input_line l = Inr line" "lower (strip line) \<notin> set quit_keywords" "strip line \<noteq> []"
    and "download_image l (strip line)
           (print ''Downloading image...'' (print (nl @ ''Image URL > '') w)) =
         (Inr (Some p, i), wb)"
    and "process_image l p = Inl (Exception e)"
  shows "iteration l w =
           (Continue,
            print (''An unexpected error occurred: '' @ e)
              (print ''Processing image (this may take a few seconds)...'' wb))"
  using assms download_image_truthy [OF assms(4)]
  by (simp add: iteration_def loop_body_def Let_def)

lemma iteration_write_fault:
  assumes "input_line l = Inr line" "lower (strip line) \<notin> set quit_keywords" "strip line \<noteq> []"
    and "download_image l (strip line)
           (print ''Downloading image...'' (print (nl @ ''Image URL > '') w)) =
         (Inr (Some p, i), wb)"
    and "process_image l p = Inr md"
    and "save_output l md (strip line)
           (print ''Processing image (this may take a few seconds)...'' wb) =
         (Inl (Exception e), wc)"
  shows "iteration l w = (Continue, print (''An unexpected error occurred: '' @ e) wc)"
  using assms download_image_truthy [OF assms(4)]
  by (simp add: iteration_def loop_body_def Let_def)

lemma loop_body_break:
  "fst (loop_body l w) = Inr Break \<Longrightarrow>
   \<exists>line. input_line l = Inr line \<and> lower (strip line) \<in> set quit_keywords"
  by (auto simp: loop_body_def Let_def split: sum.splits if_splits prod.splits option.splits)

lemma iteration_break:
  "fst (iteration l w) = Break \<Longrightarrow>
   fst (loop_body l w) = Inr Break \<or> fst (loop_body l w) = Inl KeyboardInterrupt"
  by (auto simp: iteration_def split: prod.splits sum.splits exn.splits)

lemma sample_download:
  assumes "requests_get l = (\<lambda>u. Inr page)" "now_download l = t0"
    "image_open l = (\<lambda>c. Inr rgba_png)" "image_convert l = (\<lambda>i m. Inr (take 3 (pixels i)))"
    "image_save l = (\<lambda>i p. None)"
  shows "download_image l url w =
     (Inr (Some (CACHE_DIR, ''image_20240305_140709.jpg''),
           Some \<lparr>mode = ''RGB'', pixels = [255, 0, 0]\<rparr>),
      w\<lparr>fetched := fetched w @ [url],
        fs := AList.update (CACHE_DIR, ''image_20240305_140709.jpg'')
                (Saved \<lparr>mode = ''RGB'', pixels = [255, 0, 0]\<rparr>) (fs w)\<rparr>)"
  using assms
  by (simp add: download_image_def download_try_def Let_def save_def convert_def
      os_path_join_def raise_for_status_def page_def rgba_png_def stamp_t0)

lemma sample_line:
  "strip '' https://example.com/shot.png'' = ''https://example.com/shot.png''"
  "lower ''https://example.com/shot.png'' \<notin> set quit_keywords"
  by code_simp+

subsection \<open>Cleaning the cache\<close>

lemma files_in_set: "set (files_in d w) = {f. os_path_isfile (d, f) w}"
proof -
  have "f \<in> set (os_listdir d w)" if "os_path_isfile (d, f) w" for f
  proof -
    from that have "map_of (fs w) (d, f) \<noteq> None"
      by (auto simp: os_path_isfile_def split: option.splits)
    then have "(d, f) \<in> fst ` set (fs w)" by (simp add: map_of_eq_None_iff)
    then show ?thesis by (force simp: os_listdir_def)
  qed
  then show ?thesis by (auto simp: files_in_def os_path_join_def)
qed

lemma files_in_print [simp]: "files_in d (print s w) = files_in d w"
  by (simp add: files_in_def os_listdir_def os_path_isfile_def print_def)

lemma isfile_delete:
  "os_path_isfile q (w\<lparr>fs := AList.delete p (fs w)\<rparr>) = (q \<noteq> p \<and> os_path_isfile q w)"
  by (simp add: os_path_isfile_def delete_conv')

lemma files_in_empty: "files_in d w = [] \<longleftrightarrow> (\<forall>f. \<not> os_path_isfile (d, f) w)"
  using files_in_set [of d w] by (metis (mono_tags, lifting) Collect_empty_eq set_empty)

lemma sweep_clears:
  assumes "\<And>q. os_remove_fault l q = None"
  shows "set (files_in CACHE_DIR w) \<subseteq> set ns \<Longrightarrow>
         fst (sweep l ns w) = Inr () \<and> files_in CACHE_DIR (snd (sweep l ns w)) = []"
proof (induction ns arbitrary: w)
  case Nil
  then show ?case by simp
next
  case (Cons n ns)
  show ?case
  proof (cases "os_path_isfile (CACHE_DIR, n) w")
    case True
    let ?w = "w\<lparr>fs := AList.delete (CACHE_DIR, n) (fs w)\<rparr>"
    from True have r: "os_remove l (os_path_join CACHE_DIR n) w = (Inr (), ?w)"
      by (simp add: os_remove_def assms os_path_join_def)
    from Cons.prems have "set (files_in CACHE_DIR ?w) \<subseteq> set ns"
      by (auto simp: files_in_set isfile_delete)
    from Cons.IH [OF this] r show ?thesis by simp
  next
    case False
    then obtain e where r: "os_remove l (os_path_join CACHE_DIR n) w = (Inl (Exception e), w)"
      by (cases "os_path_exists (CACHE_DIR, n) w")
        (simp_all add: os_remove_def assms os_path_join_def)
    from Cons.prems False have "set (files_in CACHE_DIR w) \<subseteq> set ns"
      by (auto simp: files_in_set)
    from Cons.IH [OF this] r show ?thesis by simp
  qed
qed

lemma cleanup_empties_cache:
  assumes "\<And>q. os_remove_fault l q = None" and "os_listdir_fault l CACHE_DIR = None"
    and "os_path_isfile p w"
  shows "fst (cleanup l p w) = Inr () \<and> files_in CACHE_DIR (snd (cleanup l p w)) = []"
proof -
  let ?w1 = "if truthy p then w\<lparr>fs := AList.delete p (fs w)\<rparr> else w"
  from assms(3) have ex: "os_path_exists p w"
    by (auto simp: os_path_isfile_def os_path_exists_def split: option.splits)
  have 1: "(if truthy p \<and> os_path_exists p w then os_remove l p w else (Inr (), w)) =
     (Inr (), ?w1)"
    using assms(1,3) ex by (simp add: os_remove_def)
  show ?thesis
  proof (cases "files_in CACHE_DIR ?w1 = []")
    case True
    with 1 assms(2) show ?thesis
      by (simp add: cleanup_def cleanup_try_def Let_def del: split_paired_All)
  next
    case False
    from sweep_clears [OF assms(1), of ?w1 "files_in CACHE_DIR ?w1"]
    have s: "fst (sweep l (files_in CACHE_DIR ?w1) ?w1) = Inr ()"
      "files_in CACHE_DIR (snd (sweep l (files_in CACHE_DIR ?w1) ?w1)) = []"
      by simp_all
    obtain r w2 where e: "sweep l (files_in CACHE_DIR ?w1) ?w1 = (r, w2)" by fastforce
    with s have "r = Inr ()" "files_in CACHE_DIR w2 = []" by simp_all
    with 1 assms(2) False e show ?thesis
      by (simp add: cleanup_def cleanup_try_def Let_def)
  qed
qed

lemma isfile_print [simp]: "os_path_isfile q (print s w) = os_path_isfile q w"
  by (simp add: os_path_isfile_def print_def)

lemma iteration_success_clears_cache:
  assumes "input_line l = Inr line" "lower (strip line) \<notin> set quit_keywords" "strip line \<noteq> []"
    and dl: "download_image l (strip line)
           (print ''Downloading image...'' (print (nl @ ''Image URL > '') w)) =
         (Inr (Some p, i), wb)"
    and pi: "process_image l p = Inr md"
    and op: "open_w l (OUTPUT_DIR, ''output_'' @ strftime_stamp (now_filename l) @ ''.md'') = None"
    and rm: "\<And>q. os_remove_fault l q = None"
    and ls: "os_listdir_fault l CACHE_DIR = None"
  shows "fst (iteration l w) = Continue \<and> files_in CACHE_DIR (snd (iteration l w)) = []"
proof -
  let ?w3 = "print ''Processing image (this may take a few seconds)...'' wb"
  let ?o = "(OUTPUT_DIR, ''output_'' @ strftime_stamp (now_filename l) @ ''.md'')"
  obtain wc where so: "save_output l md (strip line) ?w3 = (Inr ?o, wc)"
    using save_output_opened(1) [OF op, of md "strip line" ?w3]
    by (cases "save_output l md (strip line) ?w3") simp
  from dl obtain j where j: "download_try l (strip line)
           (print ''Downloading image...'' (print (nl @ ''Image URL > '') w)) = (Inr (p, j), wb)"
    using download_image_success by blast
  from download_try_success [OF j] have p: "fst p = CACHE_DIR" "map_of (fs wb) p = Some (Saved j)"
    by (simp_all add: update_conv')
  from p(1) have "p \<noteq> ?o" by (auto simp: CACHE_DIR_def OUTPUT_DIR_def)
  with save_output_opened(2) [OF op, of md "strip line" ?w3] so
  have "map_of (fs wc) p = map_of (fs ?w3) p" by simp
  with p(2) have f: "os_path_isfile p wc" by (simp add: os_path_isfile_def print_def)
  let ?w8 = "print (preview md)
       (print (replicate 30 (CHR ''-''))
         (print (''Saved to: '' @ path_text l ?o)
           (print (nl @ ''Success! ('' @ duration_text l @ ''s)'') wc)))"
  from f have "os_path_isfile p ?w8" by simp
  from cleanup_empties_cache [OF rm ls this]
  obtain w9 where c: "cleanup l p ?w8 = (Inr (), w9)" "files_in CACHE_DIR w9 = []"
    by (cases "cleanup l p ?w8") simp
  from assms(1-3) dl pi so c download_image_truthy [OF dl]
  have "iteration l w = (Continue, w9)"
    by (simp add: iteration_def loop_body_def Let_def)
  with c(2) show ?thesis by simp
qed

lemma inference_fault_keeps_image:
  assumes "input_line l = Inr line" "lower (strip line) \<notin> set quit_keywords" "strip line \<noteq> []"
    and dl: "download_image l (strip line)
           (print ''Downloading image...'' (print (nl @ ''Image URL > '') w)) =
         (Inr (Some p, i), wb)"
    and "process_image l p = Inl (Exception e)"
  shows "fst (iteration l w) = Continue \<and> snd p \<in> set (files_in CACHE_DIR (snd (iteration l w)))"
proof -
  from dl obtain j where j: "download_try l (strip line)
           (print ''Downloading image...'' (print (nl @ ''Image URL > '') w)) = (Inr (p, j), wb)"
    using download_image_success by blast
  from download_try_success [OF j] have p: "fst p = CACHE_DIR" "map_of (fs wb) p = Some (Saved j)"
    by (simp_all add: update_conv')
  from p(2) have "os_path_isfile p wb" by (simp add: os_path_isfile_def)
  with p(1) have "os_path_isfile (CACHE_DIR, snd p) wb" by (cases p) simp
  with iteration_inference_fault [OF assms] show ?thesis
    by (simp add: files_in_set)
qed

section \<open>The startup check\<close>

text \<open>
  Claim C9. When CUDA is not available and the interpreter of the virtual environment
  does not exist, \<open>check_cuda_and_restart\<close> prints the error, the interpreter in use
  and the instructions for the operator, starts no process and exits with status 1.
  When the interpreter exists, it starts that interpreter with the command line of the
  process and, when the child returns, exits with status 0.
\<close>

theorem check_cuda_and_restart_without_gpu:
  assumes "\<not> cuda_is_available b"
  shows "(\<not> venv_exists b \<longrightarrow>
            check_cuda_and_restart b w =
              (Exit 1,
               w\<lparr>printed := printed w @
                  [''ERROR: CUDA is not available in the current Python environment.'',
                   ''Current Python: '' @ sys_executable b,
                   nl @ ''ERROR: Virtual environment not found at: '' @ venv_python b,
                   nl @ ''Please run:'',
                   ''  cd image-processor'',
                   ''  .'' @ bs @ ''.venv'' @ bs @ ''Scripts'' @ bs @ ''Activate.ps1'',
                   ''  python main.py'']\<rparr>))
       \<and> (venv_exists b \<longrightarrow>
            spawned (snd (check_cuda_and_restart b w)) =
              spawned w @ [venv_python b # sys_argv b]
          \<and> (subprocess_run b (venv_python b # sys_argv b) = None \<longrightarrow>
               fst (check_cuda_and_restart b w) = Exit 0))"
  using assms
  by (auto simp: check_cuda_and_restart_def print_def Let_def split: option.splits)

theorem check_cuda_and_restart_without_gpu_witness:
  "\<not> cuda_is_available no_gpu_no_venv \<and> \<not> venv_exists no_gpu_no_venv
   \<and> fst (check_cuda_and_restart no_gpu_no_venv w0) = Exit 1
   \<and> spawned (snd (check_cuda_and_restart no_gpu_no_venv w0)) = []
   \<and> \<not> cuda_is_available no_gpu_venv \<and> venv_exists no_gpu_venv
   \<and> fst (check_cuda_and_restart no_gpu_venv w0) = Exit 0
   \<and> spawned (snd (check_cuda_and_restart no_gpu_venv w0)) =
       [[''C:/image-processor'' @ bs @ ''.venv'' @ bs @ ''Scripts'' @ bs @ ''python.exe'',
         ''main.py'']]"
proof -
  have a: "\<not> cuda_is_available no_gpu_no_venv" and a': "\<not> venv_exists no_gpu_no_venv"
    by (simp_all add: no_gpu_no_venv_def)
  have b: "\<not> cuda_is_available no_gpu_venv" and b': "venv_exists no_gpu_venv"
    by (simp_all add: no_gpu_venv_def no_gpu_no_venv_def)
  have c: "subprocess_run no_gpu_venv (venv_python no_gpu_venv # sys_argv no_gpu_venv) = None"
    by (simp add: no_gpu_venv_def no_gpu_no_venv_def)
  have v: "venv_python no_gpu_venv # sys_argv no_gpu_venv =
      [''C:/image-processor'' @ bs @ ''.venv'' @ bs @ ''Scripts'' @ bs @ ''python.exe'',
       ''main.py'']"
    by (simp add: no_gpu_venv_def no_gpu_no_venv_def venv_python_def)
  from check_cuda_and_restart_without_gpu [OF a, of w0] a'
  have 1: "fst (check_cuda_and_restart no_gpu_no_venv w0) = Exit 1
     \<and> spawned (snd (check_cuda_and_restart no_gpu_no_venv w0)) = []"
    by (simp add: w0_def)
  from check_cuda_and_restart_without_gpu [OF b, of w0] b' c
  have 2: "fst (check_cuda_and_restart no_gpu_venv w0) = Exit 0
     \<and> spawned (snd (check_cuda_and_restart no_gpu_venv w0)) =
         [venv_python no_gpu_venv # sys_argv no_gpu_venv]"
    by (simp add: w0_def)
  show ?thesis using a a' b b' 1 2 v by simp
qed

section \<open>The session loop\<close>

text \<open>
  Claim C2. An exception of class \<open>Exception\<close> raised while fetching, inferring or
  writing does not leave the loop: the turn prints a message that carries the text of
  the exception (\<open>Error downloading image: ...\<close> from the handler of the fetcher,
  \<open>An unexpected error occurred: ...\<close> from the handler of the loop) and ends with
  \<open>Continue\<close>, and the loop goes on with the next turn. A turn leaves the loop only
  when a quit keyword was typed or when a \<open>KeyboardInterrupt\<close> leaves the body.
\<close>

theorem loop_faults_do_not_end_session:
  "(input_line l = Inr line \<and> lower (strip line) \<notin> set quit_keywords \<and> strip line \<noteq> [] \<and>
    download_try l (strip line)
      (print ''Downloading image...'' (print (nl @ ''Image URL > '') w)) =
      (Inl (Exception e), wa) \<longrightarrow>
      iteration l w = (Continue, print (''Error downloading image: '' @ e) wa))
 \<and> (input_line l = Inr line \<and> lower (strip line) \<notin> set quit_keywords \<and> strip line \<noteq> [] \<and>
    download_image l (strip line)
      (print ''Downloading image...'' (print (nl @ ''Image URL > '') w)) =
      (Inr (Some p, i), wb) \<and>
    process_image l p = Inl (Exception e) \<longrightarrow>
      iteration l w =
        (Continue,
         print (''An unexpected error occurred: '' @ e)
           (print ''Processing image (this may take a few seconds)...'' wb)))
 \<and> (input_line l = Inr line \<and> lower (strip line) \<notin> set quit_keywords \<and> strip line \<noteq> [] \<and>
    download_image l (strip line)
      (print ''Downloading image...'' (print (nl @ ''Image URL > '') w)) =
      (Inr (Some p, i), wb) \<and>
    process_image l p = Inr md \<and>
    save_output l md (strip line)
      (print ''Processing image (this may take a few seconds)...'' wb) =
      (Inl (Exception e), wc) \<longrightarrow>
      iteration l w = (Continue, print (''An unexpected error occurred: '' @ e) wc))
 \<and> (fst (iteration l w) = Break \<longrightarrow>
      (\<exists>typed. input_line l = Inr typed \<and> lower (strip typed) \<in> set quit_keywords)
      \<or> fst (loop_body l w) = Inl KeyboardInterrupt)
 \<and> (fst (iteration l w) = Continue \<longrightarrow>
      session_loop (l # ls) w = session_loop ls (snd (iteration l w)))"
proof (intro conjI impI)
  assume "input_line l = Inr line \<and> lower (strip line) \<notin> set quit_keywords \<and> strip line \<noteq> [] \<and>
    download_try l (strip line)
      (print ''Downloading image...'' (print (nl @ ''Image URL > '') w)) =
      (Inl (Exception e), wa)"
  then show "iteration l w = (Continue, print (''Error downloading image: '' @ e) wa)"
    using iteration_fetch_fault by blast
next
  assume "input_line l = Inr line \<and> lower (strip line) \<notin> set quit_keywords \<and> strip line \<noteq> [] \<and>
    download_image l (strip line)
      (print ''Downloading image...'' (print (nl @ ''Image URL > '') w)) =
      (Inr (Some p, i), wb) \<and>
    process_image l p = Inl (Exception e)"
  then show "iteration l w =
        (Continue,
         print (''An unexpected error occurred: '' @ e)
           (print ''Processing image (this may take a few seconds)...'' wb))"
    using iteration_inference_fault by blast
next
  assume "input_line l = Inr line \<and> lower (strip line) \<notin> set quit_keywords \<and> strip line \<noteq> [] \<and>
    download_image l (strip line)
      (print ''Downloading image...'' (print (nl @ ''Image URL > '') w)) =
      (Inr (Some p, i), wb) \<and>
    process_image l p = Inr md \<and>
    save_output l md (strip line)
      (print ''Processing image (this may take a few seconds)...'' wb) =
      (Inl (Exception e), wc)"
  then show "iteration l w = (Continue, print (''An unexpected error occurred: '' @ e) wc)"
    using iteration_write_fault by blast
next
  assume "fst (iteration l w) = Break"
  then show "(\<exists>typed. input_line l = Inr typed \<and> lower (strip typed) \<in> set quit_keywords)
      \<or> fst (loop_body l w) = Inl KeyboardInterrupt"
    using iteration_break loop_body_break by blast
next
  assume "fst (iteration l w) = Continue"
  then show "session_loop (l # ls) w = session_loop ls (snd (iteration l w))"
    by (cases "iteration l w") simp
qed

theorem loop_faults_do_not_end_session_witness:
  "input_line unreachable_turn = Inr '' https://example.com/shot.png''
 \<and> requests_get unreachable_turn ''https://example.com/shot.png'' =
     Inl (Exception ''Connection refused'')
 \<and> fst (iteration unreachable_turn w0) = Continue
 \<and> last (printed (snd (iteration unreachable_turn w0))) =
     ''Error downloading image: Connection refused''
 \<and> process_image out_of_memory_turn (CACHE_DIR, ''image_20240305_140709.jpg'') =
     Inl (Exception ''CUDA out of memory'')
 \<and> fst (iteration out_of_memory_turn w0) = Continue
 \<and> last (printed (snd (iteration out_of_memory_turn w0))) =
     ''An unexpected error occurred: CUDA out of memory''
 \<and> open_w read_only_turn (OUTPUT_DIR, ''output_20240305_140709.md'') =
     Some (Exception ''Permission denied'')
 \<and> fst (iteration read_only_turn w0) = Continue
 \<and> last (printed (snd (iteration read_only_turn w0))) =
     ''An unexpected error occurred: Permission denied''
 \<and> fst (iteration interrupted_turn w0) = Break
 \<and> fst (loop_body interrupted_turn w0) = Inl KeyboardInterrupt
 \<and> session_loop [unreachable_turn, good_turn] w0 =
     session_loop [good_turn] (snd (iteration unreachable_turn w0))"
proof -
  let ?u = "''https://example.com/shot.png''"
  let ?line = "'' https://example.com/shot.png''"
  let ?p = "(CACHE_DIR, ''image_20240305_140709.jpg'')"
  let ?w1 = "print ''Downloading image...'' (print (nl @ ''Image URL > '') w0)"
  let ?wb = "?w1\<lparr>fetched := fetched ?w1 @ [?u],
        fs := AList.update ?p (Saved \<lparr>mode = ''RGB'', pixels = [255, 0, 0]\<rparr>) (fs ?w1)\<rparr>"
  let ?w3 = "print ''Processing image (this may take a few seconds)...'' ?wb"
  note t = loop_faults_do_not_end_session
  have q: "lower (strip ?line) \<notin> set quit_keywords" "strip ?line \<noteq> []"
    by (simp_all add: sample_line)
  have a1: "input_line unreachable_turn = Inr ?line"
    by (simp add: unreachable_turn_def good_turn_def)
  have a2: "requests_get unreachable_turn ?u = Inl (Exception ''Connection refused'')"
    by (simp add: unreachable_turn_def)
  have a3: "download_try unreachable_turn (strip ?line) ?w1 =
      (Inl (Exception ''Connection refused''), ?w1\<lparr>fetched := fetched ?w1 @ [?u]\<rparr>)"
    using download_try_get_fault [OF a2, of ?w1] by (simp add: sample_line)
  from t [where l = unreachable_turn and w = w0 and line = ?line
      and e = "''Connection refused''" and wa = "?w1\<lparr>fetched := fetched ?w1 @ [?u]\<rparr>",
      THEN conjunct1, rule_format] a1 q a3
  have 1: "fst (iteration unreachable_turn w0) = Continue
     \<and> last (printed (snd (iteration unreachable_turn w0))) =
       ''Error downloading image: Connection refused''"
    by (simp add: print_def)
  have b1: "input_line out_of_memory_turn = Inr ?line"
    by (simp add: out_of_memory_turn_def good_turn_def)
  have b2: "download_image out_of_memory_turn (strip ?line) ?w1 = (Inr (Some ?p,
       Some \<lparr>mode = ''RGB'', pixels = [255, 0, 0]\<rparr>), ?wb)"
    unfolding sample_line
    by (rule sample_download) (simp_all add: out_of_memory_turn_def good_turn_def)
  have b3: "process_image out_of_memory_turn ?p = Inl (Exception ''CUDA out of memory'')"
    by (simp add: process_image_def out_of_memory_turn_def good_turn_def)
  from t [where l = out_of_memory_turn and w = w0 and line = ?line and p = ?p
      and e = "''CUDA out of memory''" and wb = ?wb,
      THEN conjunct2, THEN conjunct1, rule_format] b1 q b2 b3
  have 2: "fst (iteration out_of_memory_turn w0) = Continue
     \<and> last (printed (snd (iteration out_of_memory_turn w0))) =
       ''An unexpected error occurred: CUDA out of memory''"
    by (simp add: print_def)
  have c1: "input_line read_only_turn = Inr ?line"
    by (simp add: read_only_turn_def good_turn_def)
  have c2: "download_image read_only_turn (strip ?line) ?w1 = (Inr (Some ?p,
       Some \<lparr>mode = ''RGB'', pixels = [255, 0, 0]\<rparr>), ?wb)"
    unfolding sample_line
    by (rule sample_download) (simp_all add: read_only_turn_def good_turn_def)
  have c3: "process_image read_only_turn ?p = Inr ''Hi''"
    by (simp add: process_image_def batch_decode_def messages_def read_only_turn_def
        good_turn_def)
  have c4: "open_w read_only_turn (OUTPUT_DIR, ''output_20240305_140709.md'') =
     Some (Exception ''Permission denied'')"
    by (simp add: read_only_turn_def)
  have c5: "save_output read_only_turn ''Hi'' (strip ?line) ?w3 =
     (Inl (Exception ''Permission denied''), ?w3)"
    by (simp add: save_output_def read_only_turn_def)
  from t [where l = read_only_turn and w = w0 and line = ?line and p = ?p
      and e = "''Permission denied''" and wb = ?wb and md = "''Hi''" and wc = ?w3,
      THEN conjunct2, THEN conjunct2, THEN conjunct1, rule_format] c1 q c2 c3 c5
  have 3: "fst (iteration read_only_turn w0) = Continue
     \<and> last (printed (snd (iteration read_only_turn w0))) =
       ''An unexpected error occurred: Permission denied''"
    by (simp add: print_def)
  have d1: "input_line interrupted_turn = Inr ?line"
    by (simp add: interrupted_turn_def good_turn_def)
  have d2: "download_image interrupted_turn (strip ?line) ?w1 = (Inr (Some ?p,
       Some \<lparr>mode = ''RGB'', pixels = [255, 0, 0]\<rparr>), ?wb)"
    unfolding sample_line
    by (rule sample_download) (simp_all add: interrupted_turn_def good_turn_def)
  have d3: "process_image interrupted_turn ?p = Inl KeyboardInterrupt"
    by (simp add: process_image_def interrupted_turn_def good_turn_def)
  have d4: "truthy ?p" by (simp add: truthy_def CACHE_DIR_def)
  have d5: "loop_body interrupted_turn w0 = (Inl KeyboardInterrupt, ?w3)"
    using d1 q d2 d3 d4 by (simp add: loop_body_def Let_def)
  then have d6: "fst (iteration interrupted_turn w0) = Break"
    by (simp add: iteration_def)
  from t [where l = interrupted_turn and w = w0, THEN conjunct2, THEN conjunct2,
      THEN conjunct2, THEN conjunct1, rule_format, OF d6] d5
  have 4: "fst (loop_body interrupted_turn w0) = Inl KeyboardInterrupt"
    by simp
  from t [where l = unreachable_turn and w = w0 and ls = "[good_turn]", THEN conjunct2,
      THEN conjunct2, THEN conjunct2, THEN conjunct2, rule_format] 1
  have 5: "session_loop [unreachable_turn, good_turn] w0 =
     session_loop [good_turn] (snd (iteration unreachable_turn w0))"
    by simp
  from a1 a2 b3 c4 1 2 3 4 5 d6 show ?thesis by simp
qed

text \<open>
  Claim C1 says that the cache is cleaned after every turn that reaches the inference,
  also when the inference raises. The statements that clean the cache stand after the
  call of \<open>save_output\<close> inside the outer \<open>try\<close>; an exception of \<open>process_image\<close>
  goes to the handler of the loop, which prints the message and starts the next turn.
  Run on a turn in which the fetch succeeds and the model raises, from an empty cache:
  the turn ends with \<open>Continue\<close>, the message is printed, and the cache holds the
  picture just downloaded. The same turn with a model that answers leaves the cache
  empty.
\<close>

theorem inference_fault_leaves_image_in_cache:
  "files_in CACHE_DIR w0 = []
 \<and> input_line out_of_memory_turn = Inr '' https://example.com/shot.png''
 \<and> process_image out_of_memory_turn (CACHE_DIR, ''image_20240305_140709.jpg'') =
     Inl (Exception ''CUDA out of memory'')
 \<and> fst (iteration out_of_memory_turn w0) = Continue
 \<and> last (printed (snd (iteration out_of_memory_turn w0))) =
     ''An unexpected error occurred: CUDA out of memory''
 \<and> files_in CACHE_DIR (snd (iteration out_of_memory_turn w0)) = [''image_20240305_140709.jpg'']
 \<and> fst (iteration good_turn w0) = Continue
 \<and> files_in CACHE_DIR (snd (iteration good_turn w0)) = []"
proof -
  let ?u = "''https://example.com/shot.png''"
  let ?line = "'' https://example.com/shot.png''"
  let ?p = "(CACHE_DIR, ''image_20240305_140709.jpg'')"
  let ?rgb = "\<lparr>mode = ''RGB'', pixels = [255, 0, 0]\<rparr>"
  let ?w1 = "print ''Downloading image...'' (print (nl @ ''Image URL > '') w0)"
  let ?wb = "?w1\<lparr>fetched := fetched ?w1 @ [?u], fs := AList.update ?p (Saved ?rgb) (fs ?w1)\<rparr>"
  have q: "lower (strip ?line) \<notin> set quit_keywords" "strip ?line \<noteq> []"
    by (simp_all add: sample_line)
  have 0: "files_in CACHE_DIR w0 = []"
    by (simp add: files_in_def os_listdir_def w0_def)
  have b1: "input_line out_of_memory_turn = Inr ?line"
    by (simp add: out_of_memory_turn_def good_turn_def)
  have b2: "download_image out_of_memory_turn (strip ?line) ?w1 = (Inr (Some ?p, Some ?rgb), ?wb)"
    unfolding sample_line
    by (rule sample_download) (simp_all add: out_of_memory_turn_def good_turn_def)
  have b3: "process_image out_of_memory_turn ?p = Inl (Exception ''CUDA out of memory'')"
    by (simp add: process_image_def out_of_memory_turn_def good_turn_def)
  note it = iteration_inference_fault [OF b1 q b2 b3]
  have fsb: "fs ?wb = [(?p, Saved ?rgb)]" by (simp add: print_def w0_def)
  have 1: "fst (iteration out_of_memory_turn w0) = Continue
     \<and> last (printed (snd (iteration out_of_memory_turn w0))) =
       ''An unexpected error occurred: CUDA out of memory''"
    by (simp add: it print_def)
  have "fs (snd (iteration out_of_memory_turn w0)) = fs ?wb"
    by (simp add: it print_def)
  with fsb have "fs (snd (iteration out_of_memory_turn w0)) = [(?p, Saved ?rgb)]"
    by simp
  then have 2: "files_in CACHE_DIR (snd (iteration out_of_memory_turn w0)) =
     [''image_20240305_140709.jpg'']"
    by (simp add: files_in_def os_listdir_def os_path_isfile_def os_path_join_def)
  have c1: "input_line good_turn = Inr ?line" by (simp add: good_turn_def)
  have c2: "download_image good_turn (strip ?line) ?w1 = (Inr (Some ?p, Some ?rgb), ?wb)"
    unfolding sample_line
    by (rule sample_download) (simp_all add: good_turn_def)
  have c3: "process_image good_turn ?p = Inr ''Hi''"
    by (simp add: process_image_def batch_decode_def messages_def good_turn_def)
  have 3: "fst (iteration good_turn w0) = Continue
     \<and> files_in CACHE_DIR (snd (iteration good_turn w0)) = []"
    by (rule iteration_success_clears_cache [OF c1 q c2 c3]) (simp_all add: good_turn_def)
  from 0 b1 b3 1 2 3 show ?thesis by simp
qed

section \<open>Leaving the loop\<close>

text \<open>
  Claim C6. When the line typed, stripped and put in lower case, is one of \<open>q\<close>,
  \<open>quit\<close>, \<open>exit\<close>, the turn prints \<open>Exiting...\<close> and leaves the loop; no request
  is made and the file system is as before, so the fetcher has not run. The later turns
  are not played.
\<close>

theorem quit_keyword_leaves_loop_without_fetch:
  assumes "input_line l = Inr line" and "lower (strip line) \<in> set quit_keywords"
  shows "iteration l w = (Break, print ''Exiting...'' (print (nl @ ''Image URL > '') w))
       \<and> fetched (snd (iteration l w)) = fetched w
       \<and> fs (snd (iteration l w)) = fs w
       \<and> session_loop (l # ls) w = iteration l w"
  using assms
  by (simp add: iteration_def loop_body_def Let_def print_def)

theorem quit_keyword_leaves_loop_without_fetch_witness:
  "lower (strip ''q'') \<in> set quit_keywords
 \<and> fst (iteration (quit_turn ''q'') w0) = Break
 \<and> fetched (snd (iteration (quit_turn ''q'') w0)) = []
 \<and> lower (strip ''Q'') \<in> set quit_keywords
 \<and> fst (iteration (quit_turn ''Q'') w0) = Break
 \<and> fetched (snd (iteration (quit_turn ''Q'') w0)) = []
 \<and> lower (strip ''quit'') \<in> set quit_keywords
 \<and> fst (iteration (quit_turn ''quit'') w0) = Break
 \<and> fetched (snd (iteration (quit_turn ''quit'') w0)) = []
 \<and> lower (strip ''EXIT'') \<in> set quit_keywords
 \<and> fst (iteration (quit_turn ''EXIT'') w0) = Break
 \<and> fetched (snd (iteration (quit_turn ''EXIT'') w0)) = []"
proof -
  have r: "fst (iteration (quit_turn k) w0) = Break
      \<and> fetched (snd (iteration (quit_turn k) w0)) = []"
    if b: "lower (strip k) \<in> set quit_keywords" for k
  proof -
    have a: "input_line (quit_turn k) = Inr k" by (simp add: quit_turn_def)
    have c: "fetched w0 = []" by (simp add: w0_def)
    from quit_keyword_leaves_loop_without_fetch [OF a b, of w0 "[]"]
    have "fst (iteration (quit_turn k) w0) = Break
      \<and> fetched (snd (iteration (quit_turn k) w0)) = fetched w0"
      by (simp add: print_def)
    with c show ?thesis by simp
  qed
  have 1: "lower (strip ''q'') \<in> set quit_keywords" by code_simp
  have 2: "lower (strip ''Q'') \<in> set quit_keywords" by code_simp
  have 3: "lower (strip ''quit'') \<in> set quit_keywords" by code_simp
  have 4: "lower (strip ''EXIT'') \<in> set quit_keywords" by code_simp
  from 1 2 3 4 r [OF 1] r [OF 2] r [OF 3] r [OF 4] show ?thesis by simp
qed

section \<open>The fetcher\<close>

text \<open>
  Claim C3, as stated, says that a response with a status outside 200 to 299 makes
  \<open>download_image\<close> return the empty result and write nothing. The test of the code is
  \<open>raise_for_status\<close>, which raises for 400 to 599 only: on a response with status 300
  whose body is a picture the fetcher writes the file and returns it.
\<close>

theorem download_image_status_300_counterexample:
  "requests_get multiple_choices_turn ''https://example.com/shot.png'' =
     Inr (page\<lparr>status_code := 300, reason := ''Multiple Choices''\<rparr>)
 \<and> \<not> (200 \<le> status_code (page\<lparr>status_code := 300, reason := ''Multiple Choices''\<rparr>)
       \<and> status_code (page\<lparr>status_code := 300, reason := ''Multiple Choices''\<rparr>) < 300)
 \<and> fs w0 = []
 \<and> download_image multiple_choices_turn ''https://example.com/shot.png'' w0 =
     (Inr (Some (CACHE_DIR, ''image_20240305_140709.jpg''),
           Some \<lparr>mode = ''RGB'', pixels = [255, 0, 0]\<rparr>),
      w0\<lparr>fetched := [''https://example.com/shot.png''],
         fs := [((CACHE_DIR, ''image_20240305_140709.jpg''),
                 Saved \<lparr>mode = ''RGB'', pixels = [255, 0, 0]\<rparr>)]\<rparr>)"
  by code_simp

text \<open>
  Claim C3, amended. When the request raises an exception, when the status of the
  response is from 400 to 599, and when the body of a response that passed the status
  test is not opened as a picture, \<open>download_image\<close> prints
  \<open>Error downloading image: ...\<close> and returns \<open>(None, None)\<close>; only the console and
  the list of requests change, the file system is as before. When it returns a path,
  the path is in the cache directory and the file system differs from the one before
  by that one path, which holds the picture returned.
\<close>

theorem download_image_failure_writes_nothing:
  "(requests_get l url = Inl (Exception e) \<longrightarrow>
      download_image l url w =
        (Inr (None, None),
         print (''Error downloading image: '' @ e) (w\<lparr>fetched := fetched w @ [url]\<rparr>)))
 \<and> (requests_get l url = Inr r \<and> 400 \<le> status_code r \<and> status_code r < 600 \<longrightarrow>
      (\<exists>m. download_image l url w =
        (Inr (None, None),
         print (''Error downloading image: '' @ m) (w\<lparr>fetched := fetched w @ [url]\<rparr>))))
 \<and> (requests_get l url = Inr r \<and> \<not> (400 \<le> status_code r \<and> status_code r < 600) \<and>
     image_open l (content r) = Inl (Exception e) \<longrightarrow>
      download_image l url w =
        (Inr (None, None),
         print (''Error downloading image: '' @ e) (w\<lparr>fetched := fetched w @ [url]\<rparr>)))
 \<and> fs (print m (w\<lparr>fetched := fetched w @ [url]\<rparr>)) = fs w
 \<and> (download_image l url w = (Inr (Some p, i), w') \<longrightarrow>
      fst p = CACHE_DIR \<and> (\<exists>j. i = Some j \<and> fs w' = AList.update p (Saved j) (fs w)))"
proof (intro conjI impI)
  assume "requests_get l url = Inl (Exception e)"
  then show "download_image l url w =
        (Inr (None, None),
         print (''Error downloading image: '' @ e) (w\<lparr>fetched := fetched w @ [url]\<rparr>))"
    by (simp add: download_try_get_fault download_image_caught)
next
  assume a: "requests_get l url = Inr r \<and> 400 \<le> status_code r \<and> status_code r < 600"
  then obtain m where "raise_for_status r = Inl (Exception m)"
    using raise_for_status_error by blast
  with a have "download_image l url w =
        (Inr (None, None),
         print (''Error downloading image: '' @ m) (w\<lparr>fetched := fetched w @ [url]\<rparr>))"
    by (simp add: download_try_status_fault download_image_caught)
  then show "\<exists>m. download_image l url w =
        (Inr (None, None),
         print (''Error downloading image: '' @ m) (w\<lparr>fetched := fetched w @ [url]\<rparr>))" ..
next
  assume a: "requests_get l url = Inr r \<and> \<not> (400 \<le> status_code r \<and> status_code r < 600) \<and>
     image_open l (content r) = Inl (Exception e)"
  then have "raise_for_status r = Inr ()" using raise_for_status_ok by blast
  with a show "download_image l url w =
        (Inr (None, None),
         print (''Error downloading image: '' @ e) (w\<lparr>fetched := fetched w @ [url]\<rparr>))"
    by (simp add: download_try_open_fault download_image_caught)
next
  show "fs (print m (w\<lparr>fetched := fetched w @ [url]\<rparr>)) = fs w"
    by (simp add: print_def)
next
  assume a: "download_image l url w = (Inr (Some p, i), w')"
  then obtain j where j: "i = Some j" "download_try l url w = (Inr (p, j), w')"
    using download_image_success by blast
  from download_try_success [OF j(2)] show "fst p = CACHE_DIR" by simp
  from download_try_success [OF j(2)] j(1)
  show "\<exists>j. i = Some j \<and> fs w' = AList.update p (Saved j) (fs w)" by simp
qed

theorem download_image_failure_writes_nothing_witness:
  "requests_get unreachable_turn ''https://example.com/shot.png'' =
     Inl (Exception ''Connection refused'')
 \<and> fst (download_image unreachable_turn ''https://example.com/shot.png'' w0) = Inr (None, None)
 \<and> fs (snd (download_image unreachable_turn ''https://example.com/shot.png'' w0)) = fs w0
 \<and> requests_get not_found_turn ''https://example.com/shot.png'' =
     Inr (page\<lparr>status_code := 404, reason := ''Not Found''\<rparr>)
 \<and> fst (download_image not_found_turn ''https://example.com/shot.png'' w0) = Inr (None, None)
 \<and> fs (snd (download_image not_found_turn ''https://example.com/shot.png'' w0)) = fs w0
 \<and> image_open html_turn (content page) = Inl (Exception ''cannot identify image file'')
 \<and> fst (download_image html_turn ''https://example.com/shot.png'' w0) = Inr (None, None)
 \<and> fs (snd (download_image html_turn ''https://example.com/shot.png'' w0)) = fs w0
 \<and> fs (snd (download_image good_turn ''https://example.com/shot.png'' w0)) =
     AList.update (CACHE_DIR, ''image_20240305_140709.jpg'')
       (Saved \<lparr>mode = ''RGB'', pixels = [255, 0, 0]\<rparr>) (fs w0)"
proof -
  let ?u = "''https://example.com/shot.png''"
  let ?nf = "page\<lparr>status_code := 404, reason := ''Not Found''\<rparr>"
  note t = download_image_failure_writes_nothing
  have a: "requests_get unreachable_turn ?u = Inl (Exception ''Connection refused'')"
    by (simp add: unreachable_turn_def)
  from t [where l = unreachable_turn and url = ?u and w = w0 and e = "''Connection refused''"] a
  have 1: "fst (download_image unreachable_turn ?u w0) = Inr (None, None)
     \<and> fs (snd (download_image unreachable_turn ?u w0)) = fs w0"
    by (simp add: print_def)
  have b: "requests_get not_found_turn ?u = Inr ?nf \<and> 400 \<le> status_code ?nf
     \<and> status_code ?nf < 600"
    by (simp add: not_found_turn_def page_def)
  from t [where l = not_found_turn and url = ?u and w = w0 and r = ?nf,
      THEN conjunct2, THEN conjunct1, rule_format, OF b]
  obtain m where "download_image not_found_turn ?u w0 =
     (Inr (None, None),
      print (''Error downloading image: '' @ m) (w0\<lparr>fetched := fetched w0 @ [?u]\<rparr>))"
    by blast
  then have 2: "fst (download_image not_found_turn ?u w0) = Inr (None, None)
     \<and> fs (snd (download_image not_found_turn ?u w0)) = fs w0"
    by (simp add: print_def)
  have c: "requests_get html_turn ?u = Inr page
     \<and> \<not> (400 \<le> status_code page \<and> status_code page < 600)
     \<and> image_open html_turn (content page) = Inl (Exception ''cannot identify image file'')"
    by (simp add: html_turn_def good_turn_def page_def)
  from t [where l = html_turn and url = ?u and w = w0 and r = page
      and e = "''cannot identify image file''"] c
  have 3: "fst (download_image html_turn ?u w0) = Inr (None, None)
     \<and> fs (snd (download_image html_turn ?u w0)) = fs w0"
    by (simp add: print_def)
  from t [where l = good_turn and url = ?u and w = w0, THEN conjunct2, THEN conjunct2,
      THEN conjunct2, THEN conjunct2, rule_format, OF good_turn_download]
  have 4: "fs (snd (download_image good_turn ?u w0)) =
     AList.update (CACHE_DIR, ''image_20240305_140709.jpg'')
       (Saved \<lparr>mode = ''RGB'', pixels = [255, 0, 0]\<rparr>) (fs w0)"
    by (simp add: good_turn_download)
  from a b c 1 2 3 4 show ?thesis by simp
qed

text \<open>
  Claim C5. A picture that \<open>download_image\<close> returns has the mode \<open>RGB\<close>, and it is
  the picture that the returned path holds. When the request succeeds, the status
  passes, the body is opened as a picture and neither the conversion nor \<open>save\<close>
  raises, \<open>download_image\<close> returns a path and a picture: the picture opened when its
  mode is \<open>RGB\<close>, and otherwise the result of \<open>convert('RGB')\<close>.
\<close>

theorem download_image_returns_rgb:
  "(download_image l url w = (Inr (Some p, Some i), w') \<longrightarrow>
      mode i = ''RGB'' \<and> map_of (fs w') p = Some (Saved i))
 \<and> (requests_get l url = Inr r \<and> raise_for_status r = Inr () \<and>
     image_open l (content r) = Inr img \<and>
     (mode img = ''RGB'' \<or> image_convert l img ''RGB'' = Inr px) \<and>
     (\<forall>j q. image_save l j q = None) \<longrightarrow>
      (\<exists>q w'. download_image l url w =
         (Inr (Some q,
               Some (if mode img \<noteq> ''RGB'' then \<lparr>mode = ''RGB'', pixels = px\<rparr> else img)),
          w')))"
proof (intro conjI impI)
  assume a: "download_image l url w = (Inr (Some p, Some i), w')"
  then have t: "download_try l url w = (Inr (p, i), w')"
    using download_image_success by fastforce
  from download_try_success [OF t] show "mode i = ''RGB''" by simp
  from download_try_success [OF t] show "map_of (fs w') p = Some (Saved i)"
    by (simp add: update_conv')
next
  assume "requests_get l url = Inr r \<and> raise_for_status r = Inr () \<and>
     image_open l (content r) = Inr img \<and>
     (mode img = ''RGB'' \<or> image_convert l img ''RGB'' = Inr px) \<and>
     (\<forall>j q. image_save l j q = None)"
  then show "\<exists>q w'. download_image l url w =
         (Inr (Some q,
               Some (if mode img \<noteq> ''RGB'' then \<lparr>mode = ''RGB'', pixels = px\<rparr> else img)),
          w')"
    by (auto simp: download_image_def download_try_def Let_def save_def convert_def
        os_path_join_def)
qed

theorem download_image_returns_rgb_witness:
  "mode rgba_png = ''RGBA''
 \<and> requests_get good_turn ''https://example.com/shot.png'' = Inr page
 \<and> raise_for_status page = Inr ()
 \<and> image_open good_turn (content page) = Inr rgba_png
 \<and> image_convert good_turn rgba_png ''RGB'' = Inr [255, 0, 0]
 \<and> (\<exists>q w'. download_image good_turn ''https://example.com/shot.png'' w0 =
       (Inr (Some q, Some \<lparr>mode = ''RGB'', pixels = [255, 0, 0]\<rparr>), w'))
 \<and> mode \<lparr>mode = ''RGB'', pixels = [255, 0, 0]\<rparr> = ''RGB''
 \<and> map_of (fs (snd (download_image good_turn ''https://example.com/shot.png'' w0)))
      (CACHE_DIR, ''image_20240305_140709.jpg'') =
      Some (Saved \<lparr>mode = ''RGB'', pixels = [255, 0, 0]\<rparr>)"
proof -
  let ?u = "''https://example.com/shot.png''"
  note t = download_image_returns_rgb
  have a: "requests_get good_turn ?u = Inr page \<and> raise_for_status page = Inr () \<and>
     image_open good_turn (content page) = Inr rgba_png \<and>
     (mode rgba_png = ''RGB'' \<or> image_convert good_turn rgba_png ''RGB'' = Inr [255, 0, 0]) \<and>
     (\<forall>j q. image_save good_turn j q = None)"
    by (simp add: good_turn_def page_def rgba_png_def raise_for_status_def)
  have m: "mode rgba_png = ''RGBA''" by (simp add: rgba_png_def)
  from t [where l = good_turn and url = ?u and w = w0 and r = page and img = rgba_png
      and px = "[255, 0, 0]", THEN conjunct2, rule_format, OF a] m
  have 1: "\<exists>q w'. download_image good_turn ?u w0 =
       (Inr (Some q, Some \<lparr>mode = ''RGB'', pixels = [255, 0, 0]\<rparr>), w')"
    by simp
  from t [THEN conjunct1, rule_format, OF good_turn_download]
  have 2: "map_of (fs (snd (download_image good_turn ?u w0)))
      (CACHE_DIR, ''image_20240305_140709.jpg'') =
      Some (Saved \<lparr>mode = ''RGB'', pixels = [255, 0, 0]\<rparr>)"
    by (simp add: good_turn_download)
  from a m 1 2 show ?thesis by (simp add: rgba_png_def)
qed

text \<open>
  Claim C10. Whenever \<open>download_image\<close> returns, the path and the picture are both
  there or both \<open>None\<close>; a path that is returned is not the empty string, so the test
  \<open>not image_path\<close> of the caller tells success from failure.
\<close>

theorem download_image_both_or_neither:
  assumes "download_image l url w = (Inr (p, i), w')"
  shows "(p = None \<longleftrightarrow> i = None) \<and> (\<forall>f. p = Some f \<longrightarrow> truthy f)"
  using assms
  by (auto simp: download_image_def download_try_def Let_def truthy_def os_path_join_def
      CACHE_DIR_def split: prod.splits sum.splits exn.splits if_splits)

theorem download_image_both_or_neither_witness:
  "download_image good_turn ''https://example.com/shot.png'' w0 =
     (Inr (Some (CACHE_DIR, ''image_20240305_140709.jpg''),
           Some \<lparr>mode = ''RGB'', pixels = [255, 0, 0]\<rparr>),
      w0\<lparr>fetched := [''https://example.com/shot.png''],
         fs := [((CACHE_DIR, ''image_20240305_140709.jpg''),
                 Saved \<lparr>mode = ''RGB'', pixels = [255, 0, 0]\<rparr>)]\<rparr>)
 \<and> truthy (CACHE_DIR, ''image_20240305_140709.jpg'')
 \<and> download_image unreachable_turn ''https://example.com/shot.png'' w0 =
     (Inr (None, None),
      w0\<lparr>fetched := [''https://example.com/shot.png''],
         printed := [''Error downloading image: Connection refused'']\<rparr>)"
proof -
  note a = good_turn_download
  note b = unreachable_turn_download
  from download_image_both_or_neither [OF a] download_image_both_or_neither [OF b] a b
  show ?thesis by simp
qed

section \<open>The inference adapter\<close>

text \<open>
  Claim C8. \<open>process_image\<close> asks the model for the batch of the one row of input
  tokens with \<open>max_new_tokens = 2048\<close>. When the model answers, the text returned is
  the decoding of the answer without its first \<open>len(in_ids)\<close> tokens and without the
  special tokens: when the answer is the input row followed by new tokens, it is the
  decoding of the new tokens that are not special; and when the answer has at most 2048
  tokens more than the input, at most 2048 tokens are decoded.
\<close>

theorem process_image_returns_continuation:
  assumes "processor_encode l (messages l p) = Inr row"
      and "model_generate l [row] 2048 = Inr (out # rest)"
  shows "process_image l p =
           Inr (convert_tokens_to_string l
                  (filter (\<lambda>i. i \<notin> set (all_special_ids l)) (drop (length row) out)))
       \<and> (\<forall>new. out = row @ new \<longrightarrow>
            process_image l p =
              Inr (convert_tokens_to_string l (filter (\<lambda>i. i \<notin> set (all_special_ids l)) new)))
       \<and> (length out \<le> length row + 2048 \<longrightarrow> length (drop (length row) out) \<le> 2048)"
  using assms by (auto simp: process_image_def batch_decode_def Let_def)

theorem process_image_returns_continuation_witness:
  "processor_encode good_turn (messages good_turn (CACHE_DIR, ''image_20240305_140709.jpg'')) =
     Inr [1, 2, 3]
 \<and> model_generate good_turn [[1, 2, 3]] 2048 = Inr [[1, 2, 3] @ [72, 0, 105]]
 \<and> all_special_ids good_turn = [0]
 \<and> process_image good_turn (CACHE_DIR, ''image_20240305_140709.jpg'') = Inr ''Hi''
 \<and> length (drop (length [1, 2, 3 :: nat]) ([1, 2, 3] @ [72, 0, 105 :: nat])) \<le> 2048"
proof -
  let ?p = "(CACHE_DIR, ''image_20240305_140709.jpg'')"
  have a: "processor_encode good_turn (messages good_turn ?p) = Inr [1, 2, 3]"
    by (simp add: good_turn_def)
  have b: "model_generate good_turn [[1, 2, 3]] 2048 = Inr (([1, 2, 3] @ [72, 0, 105]) # [])"
    by (simp add: good_turn_def)
  have c: "all_special_ids good_turn = [0]" by (simp add: good_turn_def)
  have d: "convert_tokens_to_string good_turn [72, 105] = ''Hi''" by (simp add: good_turn_def)
  from process_image_returns_continuation [OF a b, THEN conjunct2, THEN conjunct1, rule_format,
      of "[72, 0, 105]"] c d
  have 1: "process_image good_turn ?p = Inr ''Hi''" by simp
  from process_image_returns_continuation [OF a b, THEN conjunct2, THEN conjunct2]
  have 2: "length (drop (length [1, 2, 3 :: nat]) ([1, 2, 3] @ [72, 0, 105 :: nat])) \<le> 2048"
    by simp
  from a b c 1 2 show ?thesis by simp
qed

section \<open>The output writer\<close>

text \<open>
  Claim C7, as stated, says that \<open>save_output\<close> does not overwrite a file that is
  already there under the name of the same second. The code opens the path with mode
  \<open>"w"\<close> and tests nothing: a document written earlier under the name of the same
  second is replaced, and nothing is printed.
\<close>

theorem save_output_overwrites_counterexample:
  "map_of (fs w_taken) (OUTPUT_DIR, ''output_20240305_140709.md'') =
     Some (Document ''an earlier description'')
 \<and> fst (save_output good_turn ''Hi'' ''https://example.com/shot.png'' w_taken) =
     Inr (OUTPUT_DIR, ''output_20240305_140709.md'')
 \<and> map_of (fs (snd (save_output good_turn ''Hi'' ''https://example.com/shot.png'' w_taken)))
     (OUTPUT_DIR, ''output_20240305_140709.md'') =
     Some (Document (''<!-- Source: https://example.com/shot.png -->'' @ nl @
                     ''<!-- Date: 2024-03-05T14:07:09.000123 -->'' @ nl @ nl @ ''Hi''))
 \<and> printed (snd (save_output good_turn ''Hi'' ''https://example.com/shot.png'' w_taken)) =
     printed w_taken"
proof -
  have n: "now_filename good_turn = t0" "now_date good_turn = t0"
    by (simp_all add: good_turn_def)
  have o: "open_w good_turn
             (OUTPUT_DIR, ''output_'' @ strftime_stamp (now_filename good_turn) @ ''.md'') = None"
    by (simp add: good_turn_def)
  note s = save_output_opened [OF o, of "''Hi''" "''https://example.com/shot.png''" w_taken]
  have 1: "map_of (fs w_taken) (OUTPUT_DIR, ''output_20240305_140709.md'') =
     Some (Document ''an earlier description'')"
    by (simp add: w_taken_def w0_def)
  have "os_name good_turn = POSIX" by (simp add: good_turn_def)
  from s 1 text_mode_posix [OF this] show ?thesis by (simp add: n stamp_t0 isoformat_t0)
qed

text \<open>
  Claim C7, amended. When the file can be opened, \<open>save_output\<close> writes the document
  (the two comment lines, the empty line and the text, as the text stream writes them)
  to \<open>output_<timestamp>.md\<close>, whatever that path held before: a file of the same
  second-resolution name is replaced by the new document, and nothing is printed. Every
  other path holds what it held before.
\<close>

theorem save_output_replaces_same_name:
  assumes "open_w l (OUTPUT_DIR, ''output_'' @ strftime_stamp (now_filename l) @ ''.md'') = None"
  shows "fst (save_output l c u w) =
           Inr (OUTPUT_DIR, ''output_'' @ strftime_stamp (now_filename l) @ ''.md'')
       \<and> map_of (fs (snd (save_output l c u w)))
           (OUTPUT_DIR, ''output_'' @ strftime_stamp (now_filename l) @ ''.md'') =
           Some (Document (text_mode l
                    (''<!-- Source: '' @ u @ '' -->'' @ nl @
                     ''<!-- Date: '' @ isoformat (now_date l) @ '' -->'' @ nl @ nl @ c)))
       \<and> (\<forall>q. q \<noteq> (OUTPUT_DIR, ''output_'' @ strftime_stamp (now_filename l) @ ''.md'') \<longrightarrow>
              map_of (fs (snd (save_output l c u w))) q = map_of (fs w) q)
       \<and> printed (snd (save_output l c u w)) = printed w"
  using save_output_opened [OF assms, of c u w] by simp

theorem save_output_replaces_same_name_witness:
  "open_w good_turn (OUTPUT_DIR, ''output_'' @ strftime_stamp (now_filename good_turn) @ ''.md'')
     = None
 \<and> map_of (fs w_taken)
      (OUTPUT_DIR, ''output_'' @ strftime_stamp (now_filename good_turn) @ ''.md'') =
     Some (Document ''an earlier description'')
 \<and> map_of (fs (snd (save_output good_turn ''Hi'' ''https://example.com/shot.png'' w_taken)))
      (OUTPUT_DIR, ''output_'' @ strftime_stamp (now_filename good_turn) @ ''.md'') =
     Some (Document (''<!-- Source: https://example.com/shot.png -->'' @ nl @
                     ''<!-- Date: '' @ isoformat (now_date good_turn) @ '' -->'' @ nl @ nl @
                     ''Hi''))
 \<and> map_of (fs (snd (save_output good_turn ''Hi'' ''https://example.com/shot.png'' w_taken)))
      (OUTPUT_DIR, ''notes.md'') = map_of (fs w_taken) (OUTPUT_DIR, ''notes.md'')"
proof -
  have n: "now_filename good_turn = t0" by (simp add: good_turn_def)
  have o: "open_w good_turn
             (OUTPUT_DIR, ''output_'' @ strftime_stamp (now_filename good_turn) @ ''.md'') = None"
    by (simp add: good_turn_def)
  have 1: "map_of (fs w_taken)
      (OUTPUT_DIR, ''output_'' @ strftime_stamp (now_filename good_turn) @ ''.md'') =
     Some (Document ''an earlier description'')"
    by (simp add: w_taken_def w0_def n stamp_t0)
  have 2: "(OUTPUT_DIR, ''notes.md'') \<noteq>
     (OUTPUT_DIR, ''output_'' @ strftime_stamp (now_filename good_turn) @ ''.md'')"
    by simp
  have "os_name good_turn = POSIX" by (simp add: good_turn_def)
  from save_output_replaces_same_name
         [OF o, of "''Hi''" "''https://example.com/shot.png''" w_taken] o 1 2
       text_mode_posix [OF this]
  show ?thesis by simp
qed

text \<open>
  Claim C4, as stated, says that what follows the empty line equals the generated text
  byte for byte. The file is written through a text stream with \<open>newline=None\<close>, which
  writes each line feed as \<open>os.linesep\<close>: on Windows, the platform the program is
  written for, a generated text of two lines reaches the file with a carriage return
  before its line feed, so the remainder of the document is not the generated text.
\<close>

theorem save_output_windows_newlines_counterexample:
  "os_linesep windows_turn = [CHR 0x0D, CHR 0x0A]
 \<and> map_of (fs (snd (save_output windows_turn (''# Overview'' @ [CHR 0x0A] @ ''A dialog box'')
                      ''https://example.com/shot.png'' w0)))
     (OUTPUT_DIR, ''output_20240305_140709.md'') =
     Some (Document
       (''<!-- Source: https://example.com/shot.png -->'' @ [CHR 0x0D, CHR 0x0A] @
        ''<!-- Date: 2024-03-05T14:07:09.000123 -->'' @ [CHR 0x0D, CHR 0x0A] @
        [CHR 0x0D, CHR 0x0A] @ ''# Overview'' @ [CHR 0x0D, CHR 0x0A] @ ''A dialog box''))
 \<and> snd (cut_line (snd (cut_line (snd (cut_line
       (''<!-- Source: https://example.com/shot.png -->'' @ [CHR 0x0D, CHR 0x0A] @
        ''<!-- Date: 2024-03-05T14:07:09.000123 -->'' @ [CHR 0x0D, CHR 0x0A] @
        [CHR 0x0D, CHR 0x0A] @ ''# Overview'' @ [CHR 0x0D, CHR 0x0A] @ ''A dialog box''))))))
     = ''# Overview'' @ [CHR 0x0D, CHR 0x0A] @ ''A dialog box''
 \<and> ''# Overview'' @ [CHR 0x0D, CHR 0x0A] @ ''A dialog box'' \<noteq>
     ''# Overview'' @ [CHR 0x0A] @ ''A dialog box''"
proof -
  have n: "now_filename windows_turn = t0" "now_date windows_turn = t0"
    by (simp_all add: windows_turn_def good_turn_def)
  have o: "open_w windows_turn
             (OUTPUT_DIR, ''output_'' @ strftime_stamp (now_filename windows_turn) @ ''.md'') = None"
    by (simp add: windows_turn_def good_turn_def)
  have e: "os_linesep windows_turn = [CHR 0x0D, CHR 0x0A]"
    by (simp add: os_linesep_def windows_turn_def nl_def)
  have t: "text_mode windows_turn
       (''<!-- Source: https://example.com/shot.png -->'' @ nl @
        ''<!-- Date: 2024-03-05T14:07:09.000123 -->'' @ nl @ nl @
        ''# Overview'' @ [CHR 0x0A] @ ''A dialog box'') =
       ''<!-- Source: https://example.com/shot.png -->'' @ [CHR 0x0D, CHR 0x0A] @
        ''<!-- Date: 2024-03-05T14:07:09.000123 -->'' @ [CHR 0x0D, CHR 0x0A] @
        [CHR 0x0D, CHR 0x0A] @ ''# Overview'' @ [CHR 0x0D, CHR 0x0A] @ ''A dialog box''"
    by (simp add: text_mode_def e nl_def)
  note s = save_output_opened(2)
    [OF o, of "''# Overview'' @ [CHR 0x0A] @ ''A dialog box''" "''https://example.com/shot.png''" w0]
  have 1: "map_of (fs (snd (save_output windows_turn (''# Overview'' @ [CHR 0x0A] @ ''A dialog box'')
                      ''https://example.com/shot.png'' w0)))
     (OUTPUT_DIR, ''output_20240305_140709.md'') =
     Some (Document
       (''<!-- Source: https://example.com/shot.png -->'' @ [CHR 0x0D, CHR 0x0A] @
        ''<!-- Date: 2024-03-05T14:07:09.000123 -->'' @ [CHR 0x0D, CHR 0x0A] @
        [CHR 0x0D, CHR 0x0A] @ ''# Overview'' @ [CHR 0x0D, CHR 0x0A] @ ''A dialog box''))"
    using s t by (simp add: n stamp_t0 isoformat_t0)
  have 2: "snd (cut_line (snd (cut_line (snd (cut_line
       (''<!-- Source: https://example.com/shot.png -->'' @ [CHR 0x0D, CHR 0x0A] @
        ''<!-- Date: 2024-03-05T14:07:09.000123 -->'' @ [CHR 0x0D, CHR 0x0A] @
        [CHR 0x0D, CHR 0x0A] @ ''# Overview'' @ [CHR 0x0D, CHR 0x0A] @ ''A dialog box''))))))
     = ''# Overview'' @ [CHR 0x0D, CHR 0x0A] @ ''A dialog box''"
    by simp
  from e 1 2 show ?thesis by simp
qed

text \<open>
  Claim C4, amended. When the file can be opened, the source URL is one line (no line
  feed and no carriage return, as a line read from the console is) and the clock gives
  a date and time that exist, the document that \<open>save_output\<close> writes has the first
  line \<open><!-- Source: URL -->\<close> with the URL as given, the second line
  \<open><!-- Date: T -->\<close> where \<open>T\<close> is a valid ISO-8601 timestamp, an empty third line,
  and after it the generated text as the text stream writes it: each line feed as the
  line separator of the platform. The remainder equals the generated text character
  for character when the platform is POSIX or the text has no line feed.
\<close>

theorem save_output_document_format:
  assumes "open_w l (OUTPUT_DIR, ''output_'' @ strftime_stamp (now_filename l) @ ''.md'') = None"
      and "valid_datetime (now_date l)"
      and "CHR 0x0A \<notin> set url" and "CHR 0x0D \<notin> set url"
  shows "\<exists>doc rest1 rest2.
           fst (save_output l md url w) =
             Inr (OUTPUT_DIR, ''output_'' @ strftime_stamp (now_filename l) @ ''.md'')
         \<and> map_of (fs (snd (save_output l md url w)))
               (OUTPUT_DIR, ''output_'' @ strftime_stamp (now_filename l) @ ''.md'') =
               Some (Document doc)
         \<and> cut_line doc = (''<!-- Source: '' @ url @ '' -->'', rest1)
         \<and> cut_line rest1 = (''<!-- Date: '' @ isoformat (now_date l) @ '' -->'', rest2)
         \<and> iso8601_valid (isoformat (now_date l))
         \<and> cut_line rest2 = ([], text_mode l md)
         \<and> (os_name l = POSIX \<or> CHR 0x0A \<notin> set md \<longrightarrow> text_mode l md = md)"
proof -
  let ?p = "(OUTPUT_DIR, ''output_'' @ strftime_stamp (now_filename l) @ ''.md'')"
  let ?l1 = "''<!-- Source: '' @ url @ '' -->''"
  let ?l2 = "''<!-- Date: '' @ isoformat (now_date l) @ '' -->''"
  let ?e = "os_linesep l"
  let ?doc = "?l1 @ ?e @ ?l2 @ ?e @ ?e @ text_mode l md"
  note so = save_output_opened [OF assms(1), of md url w]
  have a1: "CHR 0x0A \<notin> set ?l1" "CHR 0x0D \<notin> set ?l1" using assms(3,4) by simp_all
  have a2: "CHR 0x0A \<notin> set ?l2" "CHR 0x0D \<notin> set ?l2"
    using isoformat_no_line_end [of "now_date l"] by simp_all
  have 1: "fst (save_output l md url w) = Inr ?p"
    using so(1) .
  have "text_mode l (?l1 @ nl @ ?l2 @ nl @ nl @ md) = ?doc"
    using text_mode_plain [OF a1(1), of l] text_mode_plain [OF a2(1), of l]
    by (simp only: text_mode_append text_mode_nl)
  with so(2) have 2: "map_of (fs (snd (save_output l md url w))) ?p = Some (Document ?doc)"
    by simp
  have 3: "cut_line ?doc = (?l1, ?l2 @ ?e @ ?e @ text_mode l md)"
    using a1 by (rule cut_line_append)
  have 4: "cut_line (?l2 @ ?e @ ?e @ text_mode l md) = (?l2, ?e @ text_mode l md)"
    using a2 by (rule cut_line_append)
  have 5: "cut_line (?e @ text_mode l md) = ([], text_mode l md)"
    by (rule cut_line_linesep)
  have 6: "os_name l = POSIX \<or> CHR 0x0A \<notin> set md \<longrightarrow> text_mode l md = md"
    using text_mode_posix text_mode_plain by blast
  from 1 2 3 4 5 6 isoformat_valid [OF assms(2)] show ?thesis by blast
qed

theorem save_output_document_format_witness:
  "open_w windows_turn
     (OUTPUT_DIR, ''output_'' @ strftime_stamp (now_filename windows_turn) @ ''.md'') = None
 \<and> valid_datetime (now_date windows_turn)
 \<and> CHR 0x0A \<notin> set ''https://example.com/shot.png''
 \<and> CHR 0x0D \<notin> set ''https://example.com/shot.png''
 \<and> (\<exists>doc rest1 rest2.
       map_of (fs (snd (save_output windows_turn (''# Overview'' @ nl @ ''A dialog box'')
                          ''https://example.com/shot.png'' w0)))
         (OUTPUT_DIR, ''output_20240305_140709.md'') = Some (Document doc)
     \<and> cut_line doc = (''<!-- Source: https://example.com/shot.png -->'', rest1)
     \<and> cut_line rest1 = (''<!-- Date: 2024-03-05T14:07:09.000123 -->'', rest2)
     \<and> iso8601_valid ''2024-03-05T14:07:09.000123''
     \<and> cut_line rest2 = ([], ''# Overview'' @ [CHR 0x0D, CHR 0x0A] @ ''A dialog box''))
 \<and> os_name good_turn = POSIX
 \<and> text_mode good_turn (''# Overview'' @ nl @ ''A dialog box'') =
     ''# Overview'' @ nl @ ''A dialog box''
 \<and> CHR 0x0A \<notin> set ''Hi''
 \<and> text_mode windows_turn ''Hi'' = ''Hi''"
proof -
  let ?u = "''https://example.com/shot.png''"
  have n: "now_filename windows_turn = t0" "now_date windows_turn = t0"
    by (simp_all add: windows_turn_def good_turn_def)
  have o: "open_w windows_turn
             (OUTPUT_DIR, ''output_'' @ strftime_stamp (now_filename windows_turn) @ ''.md'') = None"
    by (simp add: windows_turn_def good_turn_def)
  have v: "valid_datetime (now_date windows_turn)" by (simp add: n valid_t0)
  have u: "CHR 0x0A \<notin> set ?u" "CHR 0x0D \<notin> set ?u" by simp_all
  have m: "text_mode windows_turn (''# Overview'' @ nl @ ''A dialog box'') =
     ''# Overview'' @ [CHR 0x0D, CHR 0x0A] @ ''A dialog box''"
    by (simp add: text_mode_def os_linesep_def windows_turn_def nl_def)
  from save_output_document_format
    [OF o v u, of "''# Overview'' @ nl @ ''A dialog box''" w0]
  obtain doc rest1 rest2 where
    d1: "map_of (fs (snd (save_output windows_turn (''# Overview'' @ nl @ ''A dialog box'')
                          ?u w0)))
         (OUTPUT_DIR, ''output_'' @ strftime_stamp (now_filename windows_turn) @ ''.md'') =
         Some (Document doc)"
    and d2: "cut_line doc = (''<!-- Source: '' @ ?u @ '' -->'', rest1)"
    and d3: "cut_line rest1 =
         (''<!-- Date: '' @ isoformat (now_date windows_turn) @ '' -->'', rest2)"
    and d4: "iso8601_valid (isoformat (now_date windows_turn))"
    and d5: "cut_line rest2 =
         ([], text_mode windows_turn (''# Overview'' @ nl @ ''A dialog box''))"
    by blast
  from d1 have e1: "map_of (fs (snd (save_output windows_turn
         (''# Overview'' @ nl @ ''A dialog box'') ?u w0)))
         (OUTPUT_DIR, ''output_20240305_140709.md'') = Some (Document doc)"
    by (simp add: n stamp_t0)
  from d2 have e2: "cut_line doc = (''<!-- Source: https://example.com/shot.png -->'', rest1)"
    by simp
  from d3 have e3: "cut_line rest1 = (''<!-- Date: 2024-03-05T14:07:09.000123 -->'', rest2)"
    by (simp add: n isoformat_t0)
  from d4 have e4: "iso8601_valid ''2024-03-05T14:07:09.000123''"
    by (simp add: n isoformat_t0)
  from d5 have e5: "cut_line rest2 =
         ([], ''# Overview'' @ [CHR 0x0D, CHR 0x0A] @ ''A dialog box'')"
    by (simp only: m)
  from e1 e2 e3 e4 e5
  have 1: "\<exists>doc rest1 rest2.
       map_of (fs (snd (save_output windows_turn (''# Overview'' @ nl @ ''A dialog box'')
                          ''https://example.com/shot.png'' w0)))
         (OUTPUT_DIR, ''output_20240305_140709.md'') = Some (Document doc)
     \<and> cut_line doc = (''<!-- Source: https://example.com/shot.png -->'', rest1)
     \<and> cut_line rest1 = (''<!-- Date: 2024-03-05T14:07:09.000123 -->'', rest2)
     \<and> iso8601_valid ''2024-03-05T14:07:09.000123''
     \<and> cut_line rest2 = ([], ''# Overview'' @ [CHR 0x0D, CHR 0x0A] @ ''A dialog box'')"
    by blast
  have g: "os_name good_turn = POSIX" by (simp add: good_turn_def)
  have og: "open_w good_turn
             (OUTPUT_DIR, ''output_'' @ strftime_stamp (now_filename good_turn) @ ''.md'') = None"
    by (simp add: good_turn_def)
  have vg: "valid_datetime (now_date good_turn)" by (simp add: good_turn_def valid_t0)
  from save_output_document_format
    [OF og vg u, of "''# Overview'' @ nl @ ''A dialog box''" w0] g
  have 2: "text_mode good_turn (''# Overview'' @ nl @ ''A dialog box'') =
     ''# Overview'' @ nl @ ''A dialog box''"
    by blast
  have h: "CHR 0x0A \<notin> set ''Hi''" by simp
  from save_output_document_format [OF o v u, of "''Hi''" w0] h
  have 3: "text_mode windows_turn ''Hi'' = ''Hi''" by blast
  from o v u 1 g 2 h 3 show ?thesis by simp
qed

end
